theory Spec2Isabelle
  imports Main "HOL-Library.Sublist"
begin

section \<open>JavaScript strings\<close>

text \<open>
  A JavaScript string is a sequence of UTF-16 code units. The server source carries
  characters beyond Latin-1 (the bullet marker of the summary is written as the three
  code units U+00E2, U+20AC, U+00A2), so a string is a list of code units as natural
  numbers, and \<open>str\<close> turns an ASCII literal into such a list.
\<close>

type_synonym jsstring = "nat list"

definition str :: "string \<Rightarrow> jsstring" where
  "str s = map of_char s"

text \<open>\<open>String.prototype.trim\<close>: strips WhiteSpace and LineTerminator code units at both ends.\<close>

definition isWhiteSpace :: "nat \<Rightarrow> bool" where
  "isWhiteSpace c =
     (c = 9 \<or> c = 10 \<or> c = 11 \<or> c = 12 \<or> c = 13 \<or> c = 32 \<or> c = 160 \<or> c = 5760
      \<or> (8192 \<le> c \<and> c \<le> 8202) \<or> c = 8232 \<or> c = 8233 \<or> c = 8239 \<or> c = 8287
      \<or> c = 12288 \<or> c = 65279)"

definition jsTrim :: "jsstring \<Rightarrow> jsstring" where
  "jsTrim s = rev (dropWhile isWhiteSpace (rev (dropWhile isWhiteSpace s)))"

text \<open>\<open>String.prototype.includes\<close> with a string argument.\<close>

fun includesStr :: "jsstring \<Rightarrow> jsstring \<Rightarrow> bool" where
  "includesStr [] k = (k = [])"
| "includesStr (c # cs) k = (prefix k (c # cs) \<or> includesStr cs k)"

text \<open>
  \<open>String.prototype.toLowerCase\<close>, unit by unit. The capitals of ASCII and of
  Latin-1 (U+00C0 to U+00DE without the multiplication sign U+00D7) are lowered by
  adding 32; U+0130 and U+212A, the two code units beyond ASCII whose lower-case form
  holds an ASCII letter, are lowered as Unicode does. A capital beyond U+00FF other
  than these two is kept as it is, where JavaScript lowers it to another code unit
  beyond ASCII: the tests for ASCII keywords are not affected, the repeat tests of
  \<open>isGibberish\<close> on such text can be.
\<close>

definition lowerUnit :: "nat \<Rightarrow> jsstring" where
  "lowerUnit c =
     (if 65 \<le> c \<and> c \<le> 90 then [c + 32]
      else if (192 \<le> c \<and> c \<le> 214) \<or> (216 \<le> c \<and> c \<le> 222) then [c + 32]
      else if c = 304 then [105, 775]
      else if c = 8490 then [107]
      else [c])"

definition toLowerCase :: "jsstring \<Rightarrow> jsstring" where
  "toLowerCase s = concat (map lowerUnit s)"

section \<open>The early-end phrase\<close>

text \<open>
  \<^verbatim>\<open>
  function shouldEndNow(text) {
      if (!text) return false;
      return /\bend the chat\b/i.test(text.trim());
  }
  \<close>
  The regular expression has the flag \<open>i\<close> and not \<open>u\<close>. A pattern character then
  matches a code unit when both have the same canonical form, which is the upper-case
  form, except that a code unit beyond ASCII never canonicalises to an ASCII one. The
  class \<open>\w\<close> behind \<open>\b\<close> is \<open>[A-Za-z0-9_]\<close> whatever the flag.
\<close>

definition isWordChar :: "nat \<Rightarrow> bool" where
  "isWordChar c = ((48 \<le> c \<and> c \<le> 57) \<or> (65 \<le> c \<and> c \<le> 90) \<or> c = 95 \<or> (97 \<le> c \<and> c \<le> 122))"

definition canonicalize :: "nat \<Rightarrow> nat" where
  "canonicalize c = (if 97 \<le> c \<and> c \<le> 122 then c - 32 else c)"

text \<open>The assertion \<open>\b\<close> at position \<open>i\<close>: exactly one neighbour is a word character.\<close>

definition wordBoundary :: "jsstring \<Rightarrow> nat \<Rightarrow> bool" where
  "wordBoundary s i =
     ((0 < i \<and> i \<le> length s \<and> isWordChar (s ! (i - 1))) \<noteq> (i < length s \<and> isWordChar (s ! i)))"

text \<open>
  \<open>/\bPAT\b/\<close> matched at position \<open>i\<close> of \<open>s\<close>, for a literal \<open>PAT\<close>. The
  argument \<open>canon\<close> is the canonical form of the flag \<open>i\<close>, or the identity when the
  expression has no flag. \<open>testWord\<close> is \<open>RegExp.prototype.test\<close>: some position
  matches.
\<close>

definition matchesWordAt :: "(nat \<Rightarrow> nat) \<Rightarrow> jsstring \<Rightarrow> jsstring \<Rightarrow> nat \<Rightarrow> bool" where
  "matchesWordAt canon pat s i =
     (wordBoundary s i
      \<and> i + length pat \<le> length s
      \<and> map canon (take (length pat) (drop i s)) = map canon pat
      \<and> wordBoundary s (i + length pat))"

definition testWord :: "(nat \<Rightarrow> nat) \<Rightarrow> jsstring \<Rightarrow> jsstring \<Rightarrow> bool" where
  "testWord canon pat s = list_ex (matchesWordAt canon pat s) [0..<Suc (length s)]"

definition endPhrase :: jsstring where
  "endPhrase = str ''end the chat''"

definition shouldEndNow :: "jsstring \<Rightarrow> bool" where
  "shouldEndNow text =
     (if text = [] then False
      else testWord canonicalize endPhrase (jsTrim text))"

text \<open>Two strings are equal up to the case of their ASCII letters.\<close>

definition lowerAscii :: "nat \<Rightarrow> nat" where
  "lowerAscii c = (if 65 \<le> c \<and> c \<le> 90 then c + 32 else c)"

definition sameIgnoringCase :: "jsstring \<Rightarrow> jsstring \<Rightarrow> bool" where
  "sameIgnoringCase a b = (map lowerAscii a = map lowerAscii b)"

section \<open>Data model\<close>

text \<open>
  Timestamps are ISO strings made by \<open>new Date().toISOString()\<close> and read back by
  \<open>new Date(...)\<close>; the model keeps the milliseconds since the epoch they stand for.
  A field that JavaScript leaves \<open>null\<close> or \<open>undefined\<close> is \<open>None\<close>.
\<close>

datatype role = User | Assistant

record message =
  role :: role
  content :: jsstring
  timestamp :: "int option"
  generated_summary :: bool

record session =
  sessionId :: jsstring
  participantId :: jsstring
  startedAt :: int
  endedAt :: "int option"
  durationSeconds :: "int option"
  systemPrompt :: "jsstring option"
  messages :: "message list"

text \<open>The two fields of a participant profile that the summary generator reads
  (\<open>belief_change.mind_change_direction\<close> and \<open>belief_change.mind_change_other_text\<close>).\<close>

record participant =
  mind_change_direction :: "jsstring option"
  mind_change_other_text :: "jsstring option"

text \<open>An entry of the in-memory map \<open>activeConversations\<close>. The fallback endpoint
  \<open>/chat/start\<close> stores the start time only.\<close>

record active_conv =
  participantId_ac :: "jsstring option"
  startedAt_ac :: int
  lastActivity :: "int option"

text \<open>
  The state the handlers work on: the conversation files (one JSON file per
  conversation id), the \<open>raw\<close> column of the primary store's Session rows, the
  participant files and the in-memory tracker. The Message and IndividualDifferences
  tables of the primary store are written by \<open>saveSession\<close> from the same session
  object and read by none of the handlers below; they are left out.
\<close>

record world =
  files :: "jsstring \<rightharpoonup> session"
  dbRaw :: "jsstring \<rightharpoonup> session"
  participants :: "jsstring \<rightharpoonup> participant"
  activeConversations :: "jsstring \<rightharpoonup> active_conv"

text \<open>What the process reads from its environment once:
  \<open>NODE_ENV === 'production'\<close>, whether \<open>dataAccess.prisma\<close> is a client,
  \<open>CHAT_DURATION_MS\<close> (whole milliseconds) and whether \<open>OPENAI_API_KEY\<close> is set.\<close>

record config =
  production :: bool
  prismaOn :: bool
  CHAT_DURATION_MS :: int
  apiKeySet :: bool

section \<open>Storage gateway\<close>

text \<open>
  \<open>readJson\<close> returns \<open>null\<close> for a missing or unreadable file, the parsed object
  otherwise. \<open>writeJson\<close> returns false when the write throws (the file is then taken
  as unchanged). The primary store may fail before the Session row is upserted or
  after it (while the messages or the individual differences are written); both are
  caught inside \<open>saveSession\<close>, which never throws.
\<close>

definition readJson :: "world \<Rightarrow> jsstring \<Rightarrow> session option" where
  "readJson w cid = files w cid"

datatype db_result = DbSaved | DbFailedBeforeUpsert | DbFailedAfterUpsert

record save_outcome =
  fileWriteOk :: bool
  dbResult :: db_result

record save_results =
  file_r :: bool
  database_r :: bool

definition writeJson :: "bool \<Rightarrow> session \<Rightarrow> world \<Rightarrow> world \<times> bool" where
  "writeJson ok s w = (if ok then (w\<lparr>files := (files w)(sessionId s \<mapsto> s)\<rparr>, True) else (w, False))"

definition saveSession :: "config \<Rightarrow> save_outcome \<Rightarrow> session \<Rightarrow> world \<Rightarrow> world \<times> save_results" where
  "saveSession cfg out s w =
     (let (w1, fileDone) =
            (if production cfg \<and> prismaOn cfg then (w, False)
             else writeJson (fileWriteOk out) s w)
      in if prismaOn cfg then
           (case dbResult out of
              DbSaved \<Rightarrow>
                (w1\<lparr>dbRaw := (dbRaw w1)(sessionId s \<mapsto> s)\<rparr>, \<lparr>file_r = fileDone, database_r = True\<rparr>)
            | DbFailedAfterUpsert \<Rightarrow>
                (w1\<lparr>dbRaw := (dbRaw w1)(sessionId s \<mapsto> s)\<rparr>, \<lparr>file_r = fileDone, database_r = False\<rparr>)
            | DbFailedBeforeUpsert \<Rightarrow>
                (w1, \<lparr>file_r = fileDone, database_r = False\<rparr>))
         else (w1, \<lparr>file_r = fileDone, database_r = False\<rparr>))"

section \<open>Summary safety net\<close>

text \<open>The bullet marker as the source has it: the code units U+00E2, U+20AC, U+00A2.\<close>

definition bulletMarker :: jsstring where
  "bulletMarker = [226, 8364, 162]"

text \<open>The character class \<open>[...\*\-]\<close> of the bullet pattern: the three units of the
  marker, the asterisk and the hyphen.\<close>

definition isBulletUnit :: "nat \<Rightarrow> bool" where
  "isBulletUnit c = (c = 226 \<or> c = 8364 \<or> c = 162 \<or> c = 42 \<or> c = 45)"

definition takeLast :: "nat \<Rightarrow> 'a list \<Rightarrow> 'a list" where
  "takeLast n xs = drop (length xs - n) xs"

text \<open>The body of the loop of \<open>fallbackHasExistingSummary\<close>: either test returns true.\<close>

definition summaryLike :: "message \<Rightarrow> bool" where
  "summaryLike msg =
     (let c = content msg in
        ((includesStr c bulletMarker \<or> includesStr c (str ''*'') \<or> includesStr c (str ''-''))
           \<and> 2 \<le> length (filter isBulletUnit c))
        \<or> includesStr (toLowerCase c) (str ''summarize'')
        \<or> includesStr (toLowerCase c) (str ''summary'')
        \<or> includesStr (toLowerCase c) (str ''key themes'')
        \<or> includesStr (toLowerCase c) (str ''based on our conversation''))"

definition fallbackHasExistingSummary :: "message list \<Rightarrow> bool" where
  "fallbackHasExistingSummary msgs =
     (if msgs = [] then False
      else list_ex summaryLike (takeLast 5 (filter (\<lambda>m. role m = Assistant) msgs)))"

text \<open>\<open>a || b\<close> on an optional string: a missing or empty \<open>a\<close> gives \<open>b\<close>.\<close>

definition orElse :: "jsstring option \<Rightarrow> jsstring \<Rightarrow> jsstring" where
  "orElse a b = (case a of None \<Rightarrow> b | Some t \<Rightarrow> if t = [] then b else t)"

text \<open>The \<open>switch\<close> on the change-direction code; the empty string when no case applies.\<close>

definition changeDesc :: "jsstring \<Rightarrow> jsstring option \<Rightarrow> jsstring" where
  "changeDesc direction otherText =
     (if direction = str ''exists_to_not_exists'' then
        str ''From thinking climate change exists, to thinking it does not exist''
      else if direction = str ''not_exists_to_exists'' then
        str ''From thinking climate change does not exist, to thinking it exists''
      else if direction = str ''not_urgent_to_urgent'' then
        str ''From thinking climate change is not urgent, to thinking it is urgent''
      else if direction = str ''urgent_to_not_urgent'' then
        str ''From thinking climate change is urgent, to thinking it is not urgent''
      else if direction = str ''human_to_natural'' then
        str ''From thinking climate change is human-caused, to thinking it is natural''
      else if direction = str ''natural_to_human'' then
        str ''From thinking climate change is natural, to thinking it is human-caused''
      else if direction = str ''other'' then
        orElse otherText (str ''Other belief change described by participant'')
      else [])"

definition profilePoint :: "participant option \<Rightarrow> jsstring list" where
  "profilePoint p =
     (case p of
        None \<Rightarrow> []
      | Some q \<Rightarrow>
          (case mind_change_direction q of
             None \<Rightarrow> []
           | Some d \<Rightarrow>
               if d = [] then []
               else (let cd = changeDesc d (mind_change_other_text q)
                     in if cd = [] then [] else [str ''You described your belief change: '' @ cd])))"

text \<open>
  \<open>fallbackGenerateSummary(messages, participantId)\<close>: \<open>mentions\<close> is one theme
  flag (some kept user message holds one of the keywords). The \<open>catch\<close> block of
  the source, which returns a single generic point, is not reached on this data
  model.
\<close>

definition mentions :: "jsstring list \<Rightarrow> message list \<Rightarrow> bool" where
  "mentions keywords userMessages =
     list_ex (\<lambda>m. list_ex (includesStr (toLowerCase (content m))) keywords) userMessages"

definition fallbackGenerateSummary :: "world \<Rightarrow> message list \<Rightarrow> jsstring \<Rightarrow> jsstring list" where
  "fallbackGenerateSummary w msgs pid =
     (let participant = participants w pid;
          userMessages =
            filter (\<lambda>m. role m = User \<and> content m \<noteq> [] \<and> 10 < length (jsTrim (content m))
                         \<and> \<not> includesStr (toLowerCase (content m)) (str ''end the chat'')) msgs;
          evidence = mentions [str ''evidence'', str ''research'', str ''study'', str ''data''] userMessages;
          personal = mentions [str ''experience'', str ''personal'', str ''saw'', str ''noticed'', str ''felt''] userMessages;
          social = mentions [str ''people'', str ''family'', str ''friend'', str ''others''] userMessages;
          media = mentions [str ''media'', str ''news'', str ''article'', str ''tv''] userMessages;
          change_process = mentions [str ''change'', str ''shift'', str ''different'', str ''realized''] userMessages;
          summaryPoints =
            profilePoint participant
            @ (if evidence then [str ''You discussed the role of evidence and research in shaping your views''] else [])
            @ (if personal then [str ''You shared personal experiences that influenced your thinking''] else [])
            @ (if social then [str ''You talked about how other people influenced your perspective''] else [])
            @ (if media then [str ''You mentioned media sources that affected your views''] else [])
            @ (if change_process then [str ''You described the process of how your beliefs evolved''] else []);
          padded =
            (if length summaryPoints < 2 then
               (let one = summaryPoints @ [str ''You engaged in a conversation about your climate change belief journey'']
                in if length one < 2
                   then one @ [str ''You shared your perspective on what influences belief change'']
                   else one)
             else summaryPoints)
      in take 5 padded)"

text \<open>\<open>Array.prototype.join\<close>.\<close>

fun joinStr :: "jsstring \<Rightarrow> jsstring list \<Rightarrow> jsstring" where
  "joinStr sep [] = []"
| "joinStr sep [x] = x"
| "joinStr sep (x # y # ys) = x @ sep @ joinStr sep (y # ys)"

definition summaryPreamble :: jsstring where
  "summaryPreamble =
     str ''Thank you for sharing your story with me. Let me summarize the key themes from our conversation:''"

definition summaryText :: "jsstring list \<Rightarrow> jsstring" where
  "summaryText summaryPoints =
     summaryPreamble @ [10, 10]
     @ joinStr [10, 10] (map (\<lambda>point. bulletMarker @ [32] @ point) summaryPoints)
     @ [10, 10]
     @ str ''This covers the main points we discussed about your belief change journey.''"

definition summaryMessage :: "jsstring list \<Rightarrow> int \<Rightarrow> message" where
  "summaryMessage summaryPoints t =
     \<lparr>role = Assistant, content = summaryText summaryPoints, timestamp = Some t, generated_summary = True\<rparr>"

text \<open>
  \<open>fallbackEnsureConversationSummary(conversationId, participantId)\<close>: \<open>t\<close> is the
  clock reading put on the summary message and \<open>out\<close> what the stores do with the
  write. \<open>withSummary\<close> is the session it saves: the summary points are generated,
  formatted into one assistant message flagged \<open>generated_summary\<close>, and that
  message is pushed onto the loaded session's messages. Nothing inside the \<open>try\<close>
  block throws on a session of this data model.
\<close>

definition withSummary :: "world \<Rightarrow> jsstring \<Rightarrow> int \<Rightarrow> session \<Rightarrow> session" where
  "withSummary w pid t conversationData =
     (let summaryPoints = fallbackGenerateSummary w (messages conversationData) pid
      in conversationData\<lparr>messages := messages conversationData @ [summaryMessage summaryPoints t]\<rparr>)"

definition fallbackEnsureConversationSummary ::
  "config \<Rightarrow> int \<Rightarrow> save_outcome \<Rightarrow> jsstring \<Rightarrow> jsstring \<Rightarrow> world \<Rightarrow> world" where
  "fallbackEnsureConversationSummary cfg t out conversationId pid w =
     (case readJson w conversationId of
        None \<Rightarrow> w
      | Some conversationData \<Rightarrow>
          if fallbackHasExistingSummary (messages conversationData) then w
          else fst (saveSession cfg out (withSummary w pid t conversationData) w))"

text \<open>What the safety net adds to the messages of a loaded session: nothing when they
  hold a summary already, the one generated summary message otherwise.\<close>

definition addedSummary :: "world \<Rightarrow> jsstring \<Rightarrow> int \<Rightarrow> session \<Rightarrow> message list" where
  "addedSummary w pid t conversationData =
     (if fallbackHasExistingSummary (messages conversationData) then []
      else [summaryMessage (fallbackGenerateSummary w (messages conversationData) pid) t])"

section \<open>Reply generation\<close>

text \<open>
  What the race between the provider call and the 25 second timer of
  \<open>generateAIResponse\<close> settles to: a completion (with the text of its first choice,
  if it has one), a rejection of the call with an error message, or the timer's
  rejection \<open>OpenAI API timeout\<close>.
\<close>

datatype provider_result =
    Completion "jsstring option"
  | ProviderError jsstring
  | TimedOut

definition API_TIMEOUT :: nat where
  "API_TIMEOUT = 25000"

text \<open>The pattern character \<open>.\<close> (no flag \<open>s\<close>) matches any code unit but a line terminator.\<close>

definition isLineTerminator :: "nat \<Rightarrow> bool" where
  "isLineTerminator c = (c = 10 \<or> c = 13 \<or> c = 8232 \<or> c = 8233)"

text \<open>
  \<open>/(.{k})\1{reps-1,}/\<close> matched at position \<open>i\<close>: a block of \<open>k\<close> units without
  line terminator, there \<open>reps\<close> times in a row.
\<close>

definition blockRepeatsAt :: "jsstring \<Rightarrow> nat \<Rightarrow> nat \<Rightarrow> nat \<Rightarrow> bool" where
  "blockRepeatsAt s k reps i =
     (i + k * reps \<le> length s
      \<and> list_all (\<lambda>c. \<not> isLineTerminator c) (take k (drop i s))
      \<and> take (k * reps) (drop i s) = concat (replicate reps (take k (drop i s))))"

definition hasRepeat :: "jsstring \<Rightarrow> nat \<Rightarrow> nat \<Rightarrow> bool" where
  "hasRepeat s k reps = list_ex (blockRepeatsAt s k reps) [0..<Suc (length s)]"

definition isConsonantOrSpace :: "nat \<Rightarrow> bool" where
  "isConsonantOrSpace c = (lowerAscii c \<in> set (str ''bcdfghjklmnpqrstvwxyz'') \<or> isWhiteSpace c)"

definition isAsciiLetter :: "nat \<Rightarrow> bool" where
  "isAsciiLetter c = ((65 \<le> c \<and> c \<le> 90) \<or> (97 \<le> c \<and> c \<le> 122))"

text \<open>
  \<open>isGibberish(input)\<close>, test by test. An alternation between two \<open>\b\<close> matches
  when one of its words does; \<open>(.)\1{3,}\<close> is a unit four times in a row;
  \<open>(.{1,3})\1{2,}\<close> is a block of one to three units three times in a row; the two
  anchored classes hold of the whole input (of the input without white space for
  the second).
\<close>

definition isGibberish :: "jsstring \<Rightarrow> bool" where
  "isGibberish input =
     (if length input < 5
         \<and> \<not> list_ex (\<lambda>w. testWord id w input) [str ''yes'', str ''no'', str ''maybe'', str ''ok'', str ''sure'']
      then True
      else if hasRepeat input 1 4
              \<or> hasRepeat input 3 3 \<or> hasRepeat input 2 3 \<or> hasRepeat input 1 3
      then True
      else if (input \<noteq> [] \<and> list_all isConsonantOrSpace input) \<and> 3 < length input
      then True
      else if (let squeezed = filter (\<lambda>c. \<not> isWhiteSpace c) input
               in 4 \<le> length squeezed \<and> list_all isAsciiLetter squeezed)
              \<and> \<not> list_ex (\<lambda>w. testWord canonicalize w input)
                     [str ''real'', str ''word'', str ''here'', str ''there'', str ''when'',
                      str ''what'', str ''where'', str ''why'', str ''how'']
      then True
      else False)"

definition isConversationControl :: "jsstring \<Rightarrow> bool" where
  "isConversationControl input =
     list_ex (includesStr input)
       [str ''nevermind'', str ''never mind'', str ''forget it'', str ''skip'', str ''next'',
        str ''move on'', str ''stop'', str ''quit'', str ''end'', str ''done'', str ''finished'',
        str ''exit'', str ''bye'', str ''goodbye'']"

definition earlyResponses :: "jsstring list" where
  "earlyResponses =
     [str ''That's helpful context. What specific experiences or information were most influential in shaping that view?'',
      str ''I can see this is something you've thought about. Could you tell me more about what factors were most important to you?'',
      str ''Thank you for sharing that perspective. Are there particular aspects of this issue that you find most compelling?'']"

definition laterResponses :: "jsstring list" where
  "laterResponses =
     [str ''That's a thoughtful point. How do you think others who disagree might respond to that argument?'',
      str ''I appreciate you explaining your viewpoint. What questions do you think are most important to consider about this issue?'',
      str ''That's interesting. How has your thinking evolved as you've learned more about this topic?'',
      str ''Thank you for that insight. What would you say to someone who holds the opposite view?'']"

definition gibberishResponse :: jsstring where
  "gibberishResponse =
     str ''I'd like to understand your perspective better. Could you share your thoughts about climate change in a way that helps me follow along?''"

definition controlResponse :: jsstring where
  "controlResponse =
     str ''No problem at all. Is there anything else about climate change you'd like to explore or discuss?''"

definition shortResponse :: jsstring where
  "shortResponse =
     str ''I'd love to hear more about your thoughts. Could you elaborate on your perspective about climate change?''"

definition firstResponse :: jsstring where
  "firstResponse =
     str ''To start: could you describe what led you to change your mind about climate change?''"

definition noKeyResponse :: jsstring where
  "noKeyResponse =
     str ''I'm here to help you explore your thoughts about climate change. Could you tell me more about your perspective?''"

text \<open>
  \<open>generateIntelligentFallback(messages)\<close>. \<open>Math.floor(Math.random() * n)\<close> is an
  index below \<open>n\<close>; the draw is the parameter \<open>draw\<close>, reduced modulo \<open>n\<close>.
\<close>

definition generateIntelligentFallback :: "nat \<Rightarrow> message list \<Rightarrow> jsstring" where
  "generateIntelligentFallback draw msgs =
     (let users = filter (\<lambda>m. role m = User) msgs;
          userInput = (if users = [] then [] else jsTrim (toLowerCase (content (last users))))
      in if isGibberish userInput then gibberishResponse
         else if isConversationControl userInput then controlResponse
         else if length userInput < 10 then shortResponse
         else (let conversationLength = length users
               in if conversationLength = 1 then firstResponse
                  else if conversationLength \<le> 3 then earlyResponses ! (draw mod 3)
                  else laterResponses ! (draw mod 4)))"

text \<open>
  \<open>generateAIResponse(messages, systemPrompt)\<close>: every rejection, the timer's
  included, and an empty completion end in the \<open>catch\<close> block, which returns the
  fallback reply. The function has no path that throws.
\<close>

definition generateAIResponse ::
  "config \<Rightarrow> provider_result \<Rightarrow> nat \<Rightarrow> message list \<Rightarrow> jsstring option \<Rightarrow> jsstring" where
  "generateAIResponse cfg provider draw msgs systemPrompt_arg =
     (if \<not> apiKeySet cfg then noKeyResponse
      else (case provider of
              Completion c \<Rightarrow>
                (let response = (case c of None \<Rightarrow> [] | Some t \<Rightarrow> jsTrim t)
                 in if response = [] then generateIntelligentFallback draw msgs else response)
            | ProviderError e \<Rightarrow> generateIntelligentFallback draw msgs
            | TimedOut \<Rightarrow> generateIntelligentFallback draw msgs))"

section \<open>Requests and responses\<close>

text \<open>The \<open>type\<close> tag of an error response.\<close>

datatype errtype =
    validation_error | participant_not_found | conversation_not_found | timeout
  | data_error | server_error | connection_timeout | network_error | rate_limit

text \<open>
  What a handler sends: \<open>{reply, sessionEnded}\<close> (the flag is absent, here false, on
  an ordinary turn), \<open>{conversationId}\<close>, \<open>{ok: true}\<close>, the fallback
  \<open>{conversationId, messages}\<close>, or an error with its HTTP status and, on the
  \<open>/api\<close> endpoints, its type.
\<close>

datatype response =
    Reply jsstring bool
  | Started jsstring
  | Ended
  | StartedChat jsstring "message list"
  | Failure nat errtype
  | FailureUntyped nat

text \<open>
  A field of the JSON body that should hold a string: absent or another falsy value,
  a string, or a truthy value that is not a string (on which \<open>.trim()\<close> throws a
  TypeError).
\<close>

datatype body_value = Absent | Text jsstring | NonText

text \<open>
  What a request meets besides the state: the clock (\<open>now\<close> when the handler first
  reads it, then when the summary and the reply are stamped), the provider's answer,
  the random draw, what the stores do with the saves of the request (\<open>save1\<close> for
  the first save of a start, for the safety net's and for an ordinary turn's,
  \<open>save2\<close> for the second save of a start and for the closing save), the
  identifiers \<open>uuidv4()\<close> returns, and the opening line of the fallback start
  (\<open>None\<close> when the profile lookup or the import of the opening-line module throws;
  that module is not part of these sources).
\<close>

record request_env =
  now :: int
  summaryTime :: int
  replyTime :: int
  provider :: provider_result
  draw :: nat
  save1 :: save_outcome
  save2 :: save_outcome
  newId :: jsstring
  newParticipantId :: jsstring
  openingLine :: "jsstring option"

text \<open>The \<open>catch\<close> block of the message endpoint maps the error message to a type.\<close>

definition errorType :: "jsstring \<Rightarrow> errtype" where
  "errorType msg =
     (if includesStr msg (str ''timeout'') \<or> includesStr msg (str ''ECONNRESET'') then connection_timeout
      else if includesStr msg (str ''ENOTFOUND'') \<or> includesStr msg (str ''network'') then network_error
      else if includesStr msg (str ''rate limit'') then rate_limit
      else server_error)"

definition trimTypeError :: jsstring where
  "trimTypeError = str ''content.trim is not a function''"

text \<open>The closing reply as the source has it: the dash is the code units U+00E2, U+20AC, U+201D.\<close>

definition closingReply :: jsstring where
  "closingReply = str ''Okay '' @ [226, 8364, 8221] @ str '' ending the chat now. Thanks for participating!''"

text \<open>The final assistant message of the phrase branch, stamped when it is built.\<close>

definition finalMessage :: "int \<Rightarrow> message" where
  "finalMessage t = \<lparr>role = Assistant, content = closingReply, timestamp = Some t, generated_summary = False\<rparr>"

definition startPrompt :: jsstring where
  "startPrompt =
     str ''You are an AI assistant facilitating a conversation about climate change. Your role is to engage thoughtfully and ask follow-up questions to help the participant explore their views. Do not try to persuade or change their mind - instead, focus on understanding their perspective and encouraging reflection. Keep responses conversational and under 150 words.''"

definition evict :: "jsstring \<Rightarrow> world \<Rightarrow> world" where
  "evict conversationId w = w\<lparr>activeConversations := (activeConversations w)(conversationId := None)\<rparr>"

section \<open>Conversation start\<close>

text \<open>\<open>POST /api/conversations/start\<close>.\<close>

definition startConversation :: "config \<Rightarrow> request_env \<Rightarrow> jsstring option \<Rightarrow> world \<Rightarrow> response \<times> world" where
  "startConversation cfg env bodyParticipantId w =
     (case bodyParticipantId of
        None \<Rightarrow> (Failure 400 validation_error, w)
      | Some pid \<Rightarrow>
          if pid = [] then (Failure 400 validation_error, w)
          else (case participants w pid of
                  None \<Rightarrow> (Failure 404 participant_not_found, w)
                | Some participant \<Rightarrow>
                    (let conversationId = newId env;
                         conversationData =
                           \<lparr>sessionId = conversationId, participantId = pid, startedAt = now env,
                            endedAt = None, durationSeconds = None,
                            systemPrompt = Some startPrompt, messages = []\<rparr>;
                         w1 = fst (saveSession cfg (save1 env) conversationData w);
                         w2 = w1\<lparr>activeConversations := (activeConversations w1)(conversationId \<mapsto>
                                  \<lparr>participantId_ac = Some pid, startedAt_ac = now env,
                                   lastActivity = Some (now env)\<rparr>)\<rparr>
                     in (Started conversationId, w2))))"

text \<open>
  \<open>POST /chat/start\<close> of the fallback endpoints, mounted when the enhanced chat
  router cannot be imported. The session is saved and tracked before the opening line
  is computed, so a failure there leaves both in place.
\<close>

definition chatStart :: "config \<Rightarrow> request_env \<Rightarrow> jsstring option \<Rightarrow> world \<Rightarrow> response \<times> world" where
  "chatStart cfg env userId w =
     (let pid = orElse userId (newParticipantId env);
          conversationId = newId env;
          initial =
            \<lparr>sessionId = conversationId, participantId = pid, startedAt = now env,
             endedAt = None, durationSeconds = Some 0, systemPrompt = None, messages = []\<rparr>;
          w1 = fst (saveSession cfg (save1 env) initial w);
          w2 = w1\<lparr>activeConversations := (activeConversations w1)(conversationId \<mapsto>
                   \<lparr>participantId_ac = None, startedAt_ac = now env, lastActivity = None\<rparr>)\<rparr>
      in (case openingLine env of
            None \<Rightarrow> (FailureUntyped 500, w2)
          | Some opening \<Rightarrow>
              (let withOpening = initial\<lparr>messages :=
                     [\<lparr>role = Assistant, content = opening, timestamp = None, generated_summary = False\<rparr>]\<rparr>;
                   w3 = fst (saveSession cfg (save2 env) withOpening w2)
               in (StartedChat conversationId (messages withOpening), w3))))"

section \<open>Turn submission\<close>

text \<open>
  The step shared by both endings: when the session has a participant, run the safety
  net, then read the file again and take its messages (the handler's own list is
  kept when the file cannot be read).
\<close>

definition ensureAndReload ::
  "config \<Rightarrow> request_env \<Rightarrow> jsstring \<Rightarrow> session \<Rightarrow> message list \<Rightarrow> world \<Rightarrow> message list \<times> world" where
  "ensureAndReload cfg env conversationId conversationData current w =
     (if participantId conversationData \<noteq> [] then
        (let w1 = fallbackEnsureConversationSummary cfg (summaryTime env) (save1 env)
                    conversationId (participantId conversationData) w
         in (case readJson w1 conversationId of
               None \<Rightarrow> (current, w1)
             | Some updatedConversation \<Rightarrow> (messages updatedConversation, w1)))
      else (current, w))"

text \<open>The branch of the message endpoint taken when the early-end phrase is found.\<close>

definition endByPhrase ::
  "config \<Rightarrow> request_env \<Rightarrow> jsstring \<Rightarrow> jsstring \<Rightarrow> int \<Rightarrow> world \<Rightarrow> response \<times> world" where
  "endByPhrase cfg env conversationId content_arg startTime w =
     (case readJson w conversationId of
        None \<Rightarrow> (Failure 404 data_error, w)
      | Some conversationData \<Rightarrow>
          (let userMessage =
                 \<lparr>role = User, content = jsTrim content_arg, timestamp = Some (now env),
                  generated_summary = False\<rparr>;
               (msgs, w1) = ensureAndReload cfg env conversationId conversationData
                              (messages conversationData @ [userMessage]) w;
               closed = conversationData
                 \<lparr>messages := msgs @ [finalMessage (replyTime env)],
                  endedAt := Some (now env),
                  durationSeconds := Some ((now env - startTime) div 1000)\<rparr>;
               w2 = fst (saveSession cfg (save2 env) closed w1)
           in (Reply (content (finalMessage (replyTime env))) True, evict conversationId w2)))"

text \<open>The ordinary turn: user message, generated reply, one save.\<close>

definition replyTurn ::
  "config \<Rightarrow> request_env \<Rightarrow> jsstring \<Rightarrow> jsstring \<Rightarrow> active_conv \<Rightarrow> world \<Rightarrow> response \<times> world" where
  "replyTurn cfg env conversationId content_arg activeConv w =
     (case readJson w conversationId of
        None \<Rightarrow> (Failure 404 data_error, w)
      | Some conversationData \<Rightarrow>
          (let userMessage =
                 \<lparr>role = User, content = jsTrim content_arg, timestamp = Some (now env),
                  generated_summary = False\<rparr>;
               withUser = messages conversationData @ [userMessage];
               assistantReply = generateAIResponse cfg (provider env) (draw env) withUser
                                  (systemPrompt conversationData);
               assistantMessage =
                 \<lparr>role = Assistant, content = assistantReply, timestamp = Some (replyTime env),
                  generated_summary = False\<rparr>;
               w1 = w\<lparr>activeConversations := (activeConversations w)(conversationId \<mapsto>
                        activeConv\<lparr>lastActivity := Some (now env)\<rparr>)\<rparr>;
               w2 = fst (saveSession cfg (save1 env)
                          (conversationData\<lparr>messages := withUser @ [assistantMessage]\<rparr>) w1)
           in (Reply assistantReply False, w2)))"

text \<open>
  \<open>POST /api/conversations/:id/message\<close>. The limit test of the source,
  \<open>elapsedSeconds >= CHAT_DURATION_MS / 1000\<close> with a real quotient, is written
  without the division. A body whose \<open>content\<close> is a truthy non-string makes
  \<open>content.trim()\<close> throw; the \<open>catch\<close> block answers with status 500. The
  best-effort update of the participant's profile at the end of the phrase branch
  (in a \<open>try\<close> of its own, writing the participant's records only) is left out.
\<close>

definition sendMessage :: "config \<Rightarrow> request_env \<Rightarrow> jsstring \<Rightarrow> body_value \<Rightarrow> world \<Rightarrow> response \<times> world" where
  "sendMessage cfg env conversationId body w =
     (case body of
        Absent \<Rightarrow> (Failure 400 validation_error, w)
      | NonText \<Rightarrow> (Failure 500 (errorType trimTypeError), w)
      | Text content_arg \<Rightarrow>
          if content_arg = [] \<or> jsTrim content_arg = [] then (Failure 400 validation_error, w)
          else (case activeConversations w conversationId of
                  None \<Rightarrow> (Failure 404 conversation_not_found, w)
                | Some activeConv \<Rightarrow>
                    (let startTime = startedAt_ac activeConv;
                         elapsedSeconds = (now env - startTime) div 1000
                     in if CHAT_DURATION_MS cfg \<le> elapsedSeconds * 1000
                        then (Failure 410 timeout, evict conversationId w)
                        else if shouldEndNow content_arg
                        then endByPhrase cfg env conversationId content_arg startTime w
                        else replyTurn cfg env conversationId content_arg activeConv w)))"

section \<open>Explicit end\<close>

text \<open>\<open>POST /api/conversations/:id/end\<close>; the participant update is left out as above.\<close>

definition endConversation :: "config \<Rightarrow> request_env \<Rightarrow> jsstring \<Rightarrow> world \<Rightarrow> response \<times> world" where
  "endConversation cfg env conversationId w =
     (case activeConversations w conversationId of
        None \<Rightarrow> (Failure 404 conversation_not_found, w)
      | Some activeConv \<Rightarrow>
          (case readJson w conversationId of
             None \<Rightarrow> (Failure 404 data_error, w)
           | Some conversationData \<Rightarrow>
               (let duration = (now env - startedAt conversationData) div 1000;
                    (msgs, w1) = ensureAndReload cfg env conversationId conversationData
                                   (messages conversationData) w;
                    closed = conversationData
                      \<lparr>messages := msgs, endedAt := Some (now env), durationSeconds := Some duration\<rparr>;
                    w2 = fst (saveSession cfg (save2 env) closed w1)
                in (Ended, evict conversationId w2))))"

section \<open>Start-up\<close>

text \<open>
  What start-up depends on: three environment variables; whether
  \<open>npx prisma generate\<close> and \<open>npx prisma migrate deploy\<close> exit with code 0;
  whether the data directories can be made; whether the launcher can spawn the
  server; whether \<open>new PrismaClient()\<close> returns; whether \<open>new OpenAI(...)\<close>
  returns when it is given a key; whether the probe \<open>SELECT 1\<close> succeeds; and
  whether the port can be bound.
\<close>

record startup_env =
  NODE_ENV :: "jsstring option"
  DATABASE_URL :: "jsstring option"
  OPENAI_API_KEY :: "jsstring option"
  generateOk :: bool
  migrateOk :: bool
  dataDirsOk :: bool
  spawnOk :: bool
  clientOk :: bool
  openaiClientOk :: bool
  queryOk :: bool
  listenOk :: bool

definition isSet :: "jsstring option \<Rightarrow> bool" where
  "isSet v = (case v of None \<Rightarrow> False | Some t \<Rightarrow> t \<noteq> [])"

definition inProduction :: "startup_env \<Rightarrow> bool" where
  "inProduction e = (NODE_ENV e = Some (str ''production''))"

text \<open>
  \<open>initializePrisma\<close>, written twice in the sources (\<open>database.js\<close> and
  \<open>lib/dataAccess.js\<close>) with the same branches: \<open>Inl\<close> is the thrown error,
  \<open>Inr\<close> tells whether a client came back.
\<close>

definition initializePrisma :: "startup_env \<Rightarrow> unit + bool" where
  "initializePrisma e =
     (if isSet (DATABASE_URL e) then Inr (clientOk e)
      else if inProduction e then Inl ()
      else Inr False)"

definition isDatabaseAvailable :: "startup_env \<Rightarrow> unit + bool" where
  "isDatabaseAvailable e =
     (case initializePrisma e of
        Inl err \<Rightarrow> Inl err
      | Inr client \<Rightarrow> if client then Inr (queryOk e) else Inr False)"

text \<open>
  \<open>const openai = new OpenAI({apiKey: process.env.OPENAI_API_KEY, ...})\<close> at the top
  level of the server module. The constructor belongs to the provider's library,
  which is not part of these sources: it throws when the key is \<open>undefined\<close>, and
  what it does with a key it is given is the parameter \<open>openaiClientOk\<close>.
\<close>

definition openaiConstructed :: "startup_env \<Rightarrow> bool" where
  "openaiConstructed e = (case OPENAI_API_KEY e of None \<Rightarrow> False | Some k \<Rightarrow> openaiClientOk e)"

text \<open>The outcome of start-up: the process has exited, or it serves, with what the
  availability probe of the primary store answered at start.\<close>

datatype startup_result = Aborted | Serving bool

text \<open>
  \<open>startServer()\<close> of the server: it asks \<open>isDatabaseAvailable\<close> (through
  \<open>initializeDatabase\<close> and directly, two probes that are taken to agree; an
  unavailable store is logged and start-up goes on), then binds the port. Whatever throws inside ends in
  \<open>process.exit(1)\<close>; a port that cannot be bound is an error event that nothing
  listens to, and it ends the process as well.
\<close>

definition startServer :: "startup_env \<Rightarrow> startup_result" where
  "startServer e =
     (case isDatabaseAvailable e of
        Inl err \<Rightarrow> Aborted
      | Inr dbAvailable \<Rightarrow> if listenOk e then Serving dbAvailable else Aborted)"

text \<open>
  The server process, in the order of the module: requiring \<open>lib/dataAccess.js\<close>
  constructs the data access object, whose constructor calls \<open>initializePrisma\<close>;
  the data directories are made by \<open>fs.mkdirSync\<close> at the top level, outside any
  \<open>try\<close>; the provider's client is constructed at the top level; the last
  statement calls \<open>startServer()\<close>. An exception at the top level ends the
  process.
\<close>

definition serverProcess :: "startup_env \<Rightarrow> startup_result" where
  "serverProcess e =
     (case initializePrisma e of
        Inl err \<Rightarrow> Aborted
      | Inr client \<Rightarrow>
          if \<not> dataDirsOk e then Aborted
          else if \<not> openaiConstructed e then Aborted
          else startServer e)"

text \<open>\<open>main\<close> of \<open>scripts/migrate-and-start.js\<close>, which ends by spawning the server
  process and exits with the server's code when that process exits.\<close>

definition checkEnvironmentVariables :: "startup_env \<Rightarrow> bool" where
  "checkEnvironmentVariables e = isSet (NODE_ENV e)"

definition main :: "startup_env \<Rightarrow> startup_result" where
  "main e =
     (if \<not> checkEnvironmentVariables e then Aborted
      else if \<not> generateOk e then Aborted
      else if isSet (DATABASE_URL e) \<and> \<not> migrateOk e \<and> inProduction e then Aborted
      else if \<not> dataDirsOk e then Aborted
      else if \<not> spawnOk e then Aborted
      else serverProcess e)"



section \<open>The invariant of the end fields\<close>

text \<open>End timestamp and duration of a session are both unset or both set; and this
  holds of every session in the conversation files and in the primary store.\<close>

definition endedTogether :: "session \<Rightarrow> bool" where
  "endedTogether s = ((endedAt s = None) = (durationSeconds s = None))"

definition storeEndedTogether :: "world \<Rightarrow> bool" where
  "storeEndedTogether w =
     ((\<forall>k s. files w k = Some s \<longrightarrow> endedTogether s)
      \<and> (\<forall>k s. dbRaw w k = Some s \<longrightarrow> endedTogether s))"

section \<open>Example states\<close>

text \<open>Concrete configurations, environments and states on which the theorems below
  are instantiated.\<close>

definition devConfig :: config where
  "devConfig = \<lparr>production = False, prismaOn = False, CHAT_DURATION_MS = 300000, apiKeySet = False\<rparr>"

definition keyedConfig :: config where
  "keyedConfig = \<lparr>production = False, prismaOn = False, CHAT_DURATION_MS = 300000, apiKeySet = True\<rparr>"

definition shortLimitConfig :: config where
  "shortLimitConfig = \<lparr>production = False, prismaOn = False, CHAT_DURATION_MS = 1500, apiKeySet = False\<rparr>"

definition savedOk :: save_outcome where
  "savedOk = \<lparr>fileWriteOk = True, dbResult = DbSaved\<rparr>"

definition envAt :: "int \<Rightarrow> request_env" where
  "envAt t =
     \<lparr>now = t, summaryTime = t + 1, replyTime = t + 2, provider = TimedOut, draw = 0,
      save1 = savedOk, save2 = savedOk, newId = str ''c2'', newParticipantId = str ''p2'',
      openingLine = Some (str ''Hello'')\<rparr>"

definition emptyWorld :: world where
  "emptyWorld = \<lparr>files = Map.empty, dbRaw = Map.empty, participants = Map.empty,
                  activeConversations = Map.empty\<rparr>"

definition askedMessage :: message where
  "askedMessage = \<lparr>role = Assistant, content = str ''What led you to change your mind?'',
                    timestamp = Some 10, generated_summary = False\<rparr>"

definition talk :: session where
  "talk = \<lparr>sessionId = str ''c1'', participantId = str ''p1'', startedAt = 0, endedAt = None,
            durationSeconds = None, systemPrompt = Some startPrompt, messages = [askedMessage]\<rparr>"

definition talkWorld :: world where
  "talkWorld =
     \<lparr>files = [str ''c1'' \<mapsto> talk], dbRaw = Map.empty,
      participants = [str ''p1'' \<mapsto> \<lparr>mind_change_direction = Some (str ''natural_to_human''),
                                      mind_change_other_text = None\<rparr>],
      activeConversations = [str ''c1'' \<mapsto> \<lparr>participantId_ac = Some (str ''p1''), startedAt_ac = 0,
                                              lastActivity = Some 0\<rparr>]\<rparr>"

text \<open>The replies \<open>generateAIResponse\<close> gives without a usable completion.\<close>

definition fallbackReplies :: "jsstring list" where
  "fallbackReplies =
     [noKeyResponse, gibberishResponse, controlResponse, shortResponse, firstResponse]
     @ earlyResponses @ laterResponses"







section \<open>Properties of the early-end phrase\<close>

lemma endPhrase_units:
  "endPhrase = [101, 110, 100, 32, 116, 104, 101, 32, 99, 104, 97, 116]"
  by (simp add: endPhrase_def str_def)

lemma canonicalize_eq_iff:
  "canonicalize c = canonicalize d \<longleftrightarrow> lowerAscii c = lowerAscii d"
  by (auto simp: canonicalize_def lowerAscii_def)

lemma map_canonicalize_eq_iff:
  "map canonicalize a = map canonicalize b \<longleftrightarrow> sameIgnoringCase a b"
proof (induction a arbitrary: b)
  case Nil
  then show ?case by (auto simp: sameIgnoringCase_def)
next
  case (Cons x a)
  then show ?case
    by (cases b) (auto simp: sameIgnoringCase_def canonicalize_eq_iff)
qed

lemma sameIgnoringCase_length:
  "sameIgnoringCase a b \<Longrightarrow> length a = length b"
  unfolding sameIgnoringCase_def by (rule map_eq_imp_length_eq)

lemma length_endPhrase: "length endPhrase = 12"
  by (simp add: endPhrase_units)

lemma lowerAscii_endPhrase:
  "map lowerAscii endPhrase = endPhrase"
  by (simp add: endPhrase_units lowerAscii_def)

lemma sameIgnoringCase_endPhrase_word:
  assumes "sameIgnoringCase m endPhrase"
  shows "isWordChar (hd m)" and "isWordChar (last m)" and "m \<noteq> []"
proof -
  from assms have eq: "map lowerAscii m = endPhrase"
    by (simp add: sameIgnoringCase_def lowerAscii_endPhrase)
  then have len: "length m = 12"
    using length_map [of lowerAscii m] by (simp add: endPhrase_units)
  then show ne: "m \<noteq> []" by auto
  from eq have "map lowerAscii m ! 0 = 101" and "map lowerAscii m ! 11 = 116"
    by (simp_all add: endPhrase_units)
  with len have first: "lowerAscii (m ! 0) = 101" and final: "lowerAscii (m ! 11) = 116"
    by simp_all
  from first have "m ! 0 = 101 \<or> m ! 0 = 69"
    by (auto simp: lowerAscii_def split: if_splits)
  then show "isWordChar (hd m)"
    using ne by (auto simp: isWordChar_def hd_conv_nth)
  from final have "m ! 11 = 116 \<or> m ! 11 = 84"
    by (auto simp: lowerAscii_def split: if_splits)
  then show "isWordChar (last m)"
    using ne len by (auto simp: isWordChar_def last_conv_nth)
qed

lemma list_ex_upt_iff: "list_ex P [0..<Suc n] \<longleftrightarrow> (\<exists>i\<le>n. P i)"
  unfolding list_ex_iff by (auto simp del: upt_Suc simp: less_Suc_eq_le)

lemma matchesWordAt_endPhrase_iff:
  "matchesWordAt canonicalize endPhrase s i \<longleftrightarrow>
     i + 12 \<le> length s
     \<and> sameIgnoringCase (take 12 (drop i s)) endPhrase
     \<and> (i = 0 \<or> \<not> isWordChar (s ! (i - 1)))
     \<and> (i + 12 = length s \<or> \<not> isWordChar (s ! (i + 12)))"
proof (cases "i + 12 \<le> length s \<and> sameIgnoringCase (take 12 (drop i s)) endPhrase")
  case False
  then show ?thesis
    by (auto simp: matchesWordAt_def map_canonicalize_eq_iff length_endPhrase)
next
  case True
  let ?m = "take 12 (drop i s)"
  from True have same: "sameIgnoringCase ?m endPhrase" and len: "i + 12 \<le> length s"
    by simp_all
  have ne: "?m \<noteq> []"
    using sameIgnoringCase_endPhrase_word(3) [OF same] .
  have "hd ?m = s ! i"
    using len by (simp add: hd_conv_nth ne [simplified] hd_drop_conv_nth)
  then have w1: "isWordChar (s ! i)"
    using sameIgnoringCase_endPhrase_word(1) [OF same] by simp
  have "last ?m = ?m ! 11"
    using len by (simp add: last_conv_nth ne [simplified])
  also have "\<dots> = s ! (i + 11)"
    using len by simp
  finally have "isWordChar (s ! (i + 11))"
    using sameIgnoringCase_endPhrase_word(2) [OF same] by simp
  then have w2: "isWordChar (s ! (i + 12 - 1))"
    by (simp add: add.commute)
  from len w1 w2 True show ?thesis
    by (auto simp: matchesWordAt_def wordBoundary_def map_canonicalize_eq_iff length_endPhrase)
qed

lemma jsTrim_Nil: "jsTrim [] = []"
  by (simp add: jsTrim_def)

lemma shouldEndNow_iff:
  "shouldEndNow text \<longleftrightarrow>
     (\<exists>pre m post. jsTrim text = pre @ m @ post \<and> sameIgnoringCase m endPhrase
        \<and> (pre = [] \<or> \<not> isWordChar (last pre)) \<and> (post = [] \<or> \<not> isWordChar (hd post)))"
  (is "?L \<longleftrightarrow> ?R")
proof
  assume ?L
  then obtain i where i: "i \<le> length (jsTrim text)" "matchesWordAt canonicalize endPhrase (jsTrim text) i"
    by (auto simp del: upt_Suc simp: shouldEndNow_def testWord_def list_ex_upt_iff split: if_splits)
  let ?s = "jsTrim text"
  from i(2) have len: "i + 12 \<le> length ?s"
    and same: "sameIgnoringCase (take 12 (drop i ?s)) endPhrase"
    and b1: "i = 0 \<or> \<not> isWordChar (?s ! (i - 1))"
    and b2: "i + 12 = length ?s \<or> \<not> isWordChar (?s ! (i + 12))"
    by (simp_all add: matchesWordAt_endPhrase_iff)
  have parts: "?s = take i ?s @ take 12 (drop i ?s) @ drop (i + 12) ?s"
    by (metis append_take_drop_id drop_drop add.commute)
  have p: "take i ?s = [] \<or> \<not> isWordChar (last (take i ?s))"
    using b1 len by (auto simp: last_conv_nth)
  have q: "drop (i + 12) ?s = [] \<or> \<not> isWordChar (hd (drop (i + 12) ?s))"
    using b2 len by (auto simp: hd_drop_conv_nth)
  from parts same p q show ?R by blast
next
  assume ?R
  then obtain pre m post where d: "jsTrim text = pre @ m @ post"
    and same: "sameIgnoringCase m endPhrase"
    and p: "pre = [] \<or> \<not> isWordChar (last pre)"
    and q: "post = [] \<or> \<not> isWordChar (hd post)"
    by blast
  from same have len: "length m = 12"
    using sameIgnoringCase_length [OF same] by (simp add: length_endPhrase)
  have ne: "text \<noteq> []"
    using d len by (auto simp: jsTrim_Nil)
  let ?i = "length pre"
  have "matchesWordAt canonicalize endPhrase (jsTrim text) ?i"
    unfolding matchesWordAt_endPhrase_iff d
    using same len p q
    by (auto simp: nth_append last_conv_nth hd_conv_nth)
  moreover have "?i \<le> length (jsTrim text)"
    by (simp add: d)
  ultimately show ?L
    using ne by (auto simp del: upt_Suc simp: shouldEndNow_def testWord_def list_ex_upt_iff)
qed

lemmas shouldEndNow_eval =
  shouldEndNow_def testWord_def matchesWordAt_def wordBoundary_def isWordChar_def
  canonicalize_def endPhrase_units jsTrim_def isWhiteSpace_def str_def

text \<open>
  C6. The early-end detector finds the phrase "end the chat" in the trimmed input
  whatever the case of its letters, anywhere, and only between word boundaries:
  the input is accepted exactly when its trimmed form splits into a part before, a
  part equal to the phrase up to case, and a part after, where the part before is
  empty or ends in a non-word character and the part after is empty or starts with
  one. "please end the chat now" is accepted, "endings of the chat show" is not.
\<close>

theorem shouldEndNow_phrase_on_word_boundaries:
  "shouldEndNow (str ''please end the chat now'')
   \<and> \<not> shouldEndNow (str ''endings of the chat show'')
   \<and> (shouldEndNow text \<longleftrightarrow>
        (\<exists>pre m post. jsTrim text = pre @ m @ post \<and> sameIgnoringCase m endPhrase
           \<and> (pre = [] \<or> \<not> isWordChar (last pre))
           \<and> (post = [] \<or> \<not> isWordChar (hd post))))"
proof (intro conjI)
  show "shouldEndNow (str ''please end the chat now'')"
    by (simp add: shouldEndNow_eval)
  show "\<not> shouldEndNow (str ''endings of the chat show'')"
    by (simp add: shouldEndNow_eval)
  show "shouldEndNow text \<longleftrightarrow>
        (\<exists>pre m post. jsTrim text = pre @ m @ post \<and> sameIgnoringCase m endPhrase
           \<and> (pre = [] \<or> \<not> isWordChar (last pre))
           \<and> (post = [] \<or> \<not> isWordChar (hd post)))"
    by (rule shouldEndNow_iff)
qed

theorem shouldEndNow_phrase_on_word_boundaries_witness:
  "jsTrim (str ''  Well, END the Chat!  '') = str ''Well, '' @ str ''END the Chat'' @ str ''!''
   \<and> sameIgnoringCase (str ''END the Chat'') endPhrase
   \<and> \<not> isWordChar (last (str ''Well, ''))
   \<and> \<not> isWordChar (hd (str ''!''))
   \<and> shouldEndNow (str ''  Well, END the Chat!  '')"
proof -
  have a: "jsTrim (str ''  Well, END the Chat!  '') = str ''Well, '' @ str ''END the Chat'' @ str ''!''"
    by (simp add: jsTrim_def isWhiteSpace_def str_def)
  have b: "sameIgnoringCase (str ''END the Chat'') endPhrase"
    by (simp add: sameIgnoringCase_def lowerAscii_def endPhrase_units str_def)
  have c: "\<not> isWordChar (last (str ''Well, ''))"
    by (simp add: isWordChar_def str_def)
  have d: "\<not> isWordChar (hd (str ''!''))"
    by (simp add: isWordChar_def str_def)
  from a b c d have "shouldEndNow (str ''  Well, END the Chat!  '')"
    using shouldEndNow_phrase_on_word_boundaries [of "str ''  Well, END the Chat!  ''"]
    by blast
  with a b c d show ?thesis by blast
qed

section \<open>Validation, admission and the time limit\<close>

lemma jsTrim_empty_iff: "jsTrim t = [] \<longleftrightarrow> list_all isWhiteSpace t"
proof -
  have "dropWhile isWhiteSpace (rev (dropWhile isWhiteSpace t)) = [] \<longleftrightarrow> dropWhile isWhiteSpace t = []"
  proof (cases "dropWhile isWhiteSpace t")
    case Nil
    show ?thesis unfolding Nil by simp
  next
    case (Cons x xs)
    then have "\<not> isWhiteSpace x"
      using hd_dropWhile [of isWhiteSpace t] by auto
    then show ?thesis
      unfolding Cons by (auto simp: dropWhile_eq_Nil_conv)
  qed
  then have "jsTrim t = [] \<longleftrightarrow> dropWhile isWhiteSpace t = []"
    by (simp only: jsTrim_def rev_is_Nil_conv)
  then show ?thesis
    by (simp add: dropWhile_eq_Nil_conv list_all_iff)
qed

lemma sendMessage_blank:
  "list_all isWhiteSpace t \<Longrightarrow> sendMessage cfg env cid (Text t) w = (Failure 400 validation_error, w)"
  by (simp add: sendMessage_def jsTrim_empty_iff)

lemma sendMessage_untracked:
  "\<not> list_all isWhiteSpace t \<Longrightarrow> activeConversations w cid = None \<Longrightarrow>
   sendMessage cfg env cid (Text t) w = (Failure 404 conversation_not_found, w)"
  by (auto simp: sendMessage_def jsTrim_empty_iff)

lemma sendMessage_expired:
  "\<not> list_all isWhiteSpace t \<Longrightarrow> activeConversations w cid = Some ac \<Longrightarrow>
   CHAT_DURATION_MS cfg \<le> ((now env - startedAt_ac ac) div 1000) * 1000 \<Longrightarrow>
   sendMessage cfg env cid (Text t) w = (Failure 410 timeout, evict cid w)"
  by (auto simp: sendMessage_def jsTrim_empty_iff Let_def)

lemma evict_tracker [simp]: "activeConversations (evict cid w) cid = None"
  by (simp add: evict_def)

lemma evict_storage [simp]:
  "files (evict cid w) = files w" "dbRaw (evict cid w) = dbRaw w" "participants (evict cid w) = participants w"
  by (simp_all add: evict_def)

lemma whole_seconds_limit:
  fixes limit elapsed :: int
  assumes "1000 dvd limit"
  shows "limit \<le> (elapsed div 1000) * 1000 \<longleftrightarrow> limit \<le> elapsed"
proof
  have "(elapsed div 1000) * 1000 + elapsed mod 1000 = elapsed"
    by simp
  moreover have "0 \<le> elapsed mod 1000"
    by simp
  ultimately have below: "(elapsed div 1000) * 1000 \<le> elapsed"
    by linarith
  assume "limit \<le> (elapsed div 1000) * 1000"
  with below show "limit \<le> elapsed" by linarith
next
  assume le: "limit \<le> elapsed"
  from assms obtain k where k: "limit = 1000 * k" by (auto simp: dvd_def)
  from le have "limit div 1000 \<le> elapsed div 1000"
    by (rule zdiv_mono1) simp
  then have "k \<le> elapsed div 1000"
    by (simp add: k)
  then show "limit \<le> (elapsed div 1000) * 1000"
    by (simp add: k)
qed

lemmas example_states =
  devConfig_def keyedConfig_def shortLimitConfig_def savedOk_def envAt_def emptyWorld_def
  askedMessage_def talk_def talkWorld_def

text \<open>
  C10. Validation comes before admission in the message endpoint: a request whose
  content is missing, empty or made of white space only is answered with status 400
  and type \<open>validation_error\<close>, never with \<open>conversation_not_found\<close>, whatever
  the state, so also when the conversation id is not in the tracker; the state is
  left as it was.
\<close>

theorem validation_precedes_admission:
  assumes "body = Absent \<or> (\<exists>t. body = Text t \<and> list_all isWhiteSpace t)"
  shows "sendMessage cfg env cid body w = (Failure 400 validation_error, w)
         \<and> fst (sendMessage cfg env cid body w) \<noteq> Failure 404 conversation_not_found"
proof -
  from assms have "sendMessage cfg env cid body w = (Failure 400 validation_error, w)"
  proof
    assume "body = Absent"
    then show ?thesis by (simp add: sendMessage_def)
  next
    assume "\<exists>t. body = Text t \<and> list_all isWhiteSpace t"
    then show ?thesis by (auto simp: sendMessage_blank)
  qed
  then show ?thesis by simp
qed

theorem validation_precedes_admission_witness:
  "activeConversations emptyWorld (str ''ghost'') = None
   \<and> list_all isWhiteSpace (str ''   '')
   \<and> sendMessage devConfig (envAt 0) (str ''ghost'') (Text (str ''   '')) emptyWorld
       = (Failure 400 validation_error, emptyWorld)"
proof -
  have blank: "list_all isWhiteSpace (str ''   '')"
    by (simp add: isWhiteSpace_def str_def)
  then have "Text (str ''   '') = Absent \<or> (\<exists>t. Text (str ''   '') = Text t \<and> list_all isWhiteSpace t)"
    by blast
  from validation_precedes_admission [OF this, of devConfig "envAt 0" "str ''ghost''" emptyWorld] blank
  show ?thesis by (simp add: emptyWorld_def)
qed

text \<open>
  C5, as the code has it. A turn whose text is not blank (not empty and not made of
  white space only), sent to a conversation id that is not in the tracker (never
  opened, or closed), is answered with status 404 and type
  \<open>conversation_not_found\<close>, and the state (files, primary store, participants,
  tracker) is returned unchanged. The specification asks this of every non-empty text;
  a text of white space only is non-empty and is answered with
  \<open>validation_error\<close> instead.
\<close>

theorem untracked_session_not_found:
  assumes "\<not> list_all isWhiteSpace t" and "activeConversations w cid = None"
  shows "sendMessage cfg env cid (Text t) w = (Failure 404 conversation_not_found, w)"
  using assms by (rule sendMessage_untracked)

theorem untracked_session_not_found_witness:
  "\<not> list_all isWhiteSpace (str ''hello'')
   \<and> activeConversations talkWorld (str ''ghost'') = None
   \<and> sendMessage devConfig (envAt 0) (str ''ghost'') (Text (str ''hello'')) talkWorld
       = (Failure 404 conversation_not_found, talkWorld)"
proof -
  have a: "\<not> list_all isWhiteSpace (str ''hello'')"
    by (simp add: isWhiteSpace_def str_def)
  have b: "activeConversations talkWorld (str ''ghost'') = None"
    by (simp add: talkWorld_def str_def)
  from untracked_session_not_found [OF a b, of devConfig "envAt 0"] a b
  show ?thesis by simp
qed

theorem blank_text_not_found_counterexample:
  "str '' '' \<noteq> []
   \<and> activeConversations emptyWorld (str ''ghost'') = None
   \<and> sendMessage devConfig (envAt 0) (str ''ghost'') (Text (str '' '')) emptyWorld
       = (Failure 400 validation_error, emptyWorld)"
  by (simp add: sendMessage_def jsTrim_def isWhiteSpace_def str_def emptyWorld_def)

text \<open>
  C4, as the code has it. The endpoint compares the elapsed whole seconds,
  \<open>floor((now - startedAt) / 1000)\<close>, with \<open>CHAT_DURATION_MS / 1000\<close>. A turn with
  a text that is not blank on a tracked conversation whose elapsed whole seconds
  reach the limit (which is the same as the elapsed time reaching the limit when
  the limit is a whole number of seconds, as the default of 300000 ms is) is
  answered with status 410 and type \<open>timeout\<close>, the id is removed from the tracker
  while the stored sessions stay as they are, and every later turn with a text that
  is not blank on that id is answered with \<open>conversation_not_found\<close> and changes
  nothing. With a limit that is not a whole number of seconds the elapsed time can
  reach the limit without a timeout.
\<close>

theorem reached_limit_times_out_and_evicts:
  assumes "\<not> list_all isWhiteSpace t"
    and "activeConversations w cid = Some ac"
    and "CHAT_DURATION_MS cfg \<le> ((now env - startedAt_ac ac) div 1000) * 1000
         \<or> (1000 dvd CHAT_DURATION_MS cfg \<and> CHAT_DURATION_MS cfg \<le> now env - startedAt_ac ac)"
  shows "sendMessage cfg env cid (Text t) w = (Failure 410 timeout, evict cid w)
         \<and> activeConversations (evict cid w) cid = None
         \<and> files (evict cid w) = files w \<and> dbRaw (evict cid w) = dbRaw w
         \<and> (\<forall>env' t'. \<not> list_all isWhiteSpace t' \<longrightarrow>
               sendMessage cfg env' cid (Text t') (evict cid w)
                 = (Failure 404 conversation_not_found, evict cid w))"
proof -
  from assms(3) have "CHAT_DURATION_MS cfg \<le> ((now env - startedAt_ac ac) div 1000) * 1000"
    using whole_seconds_limit [of "CHAT_DURATION_MS cfg" "now env - startedAt_ac ac"] by blast
  with assms(1,2) have "sendMessage cfg env cid (Text t) w = (Failure 410 timeout, evict cid w)"
    by (rule sendMessage_expired)
  moreover have "\<forall>env' t'. \<not> list_all isWhiteSpace t' \<longrightarrow>
      sendMessage cfg env' cid (Text t') (evict cid w) = (Failure 404 conversation_not_found, evict cid w)"
    by (simp add: sendMessage_untracked)
  ultimately show ?thesis by simp
qed

theorem reached_limit_times_out_and_evicts_witness:
  "\<not> list_all isWhiteSpace (str ''hello'')
   \<and> 1000 dvd CHAT_DURATION_MS devConfig
   \<and> CHAT_DURATION_MS devConfig \<le> now (envAt 300500) - 0
   \<and> sendMessage devConfig (envAt 300500) (str ''c1'') (Text (str ''hello'')) talkWorld
       = (Failure 410 timeout, evict (str ''c1'') talkWorld)
   \<and> sendMessage devConfig (envAt 300900) (str ''c1'') (Text (str ''hello'')) (evict (str ''c1'') talkWorld)
       = (Failure 404 conversation_not_found, evict (str ''c1'') talkWorld)"
proof -
  let ?ac = "\<lparr>participantId_ac = Some (str ''p1''), startedAt_ac = 0, lastActivity = Some 0\<rparr>"
  have a: "\<not> list_all isWhiteSpace (str ''hello'')"
    by (simp add: isWhiteSpace_def str_def)
  have b: "activeConversations talkWorld (str ''c1'') = Some ?ac"
    by (simp add: talkWorld_def)
  have c: "1000 dvd CHAT_DURATION_MS devConfig"
    by (simp add: devConfig_def)
  have d: "CHAT_DURATION_MS devConfig \<le> now (envAt 300500) - 0"
    by (simp add: devConfig_def envAt_def)
  from c d have e: "CHAT_DURATION_MS devConfig \<le> ((now (envAt 300500) - startedAt_ac ?ac) div 1000) * 1000
      \<or> (1000 dvd CHAT_DURATION_MS devConfig \<and> CHAT_DURATION_MS devConfig \<le> now (envAt 300500) - startedAt_ac ?ac)"
    by simp
  from reached_limit_times_out_and_evicts [OF a b e] a c d
  show ?thesis by blast
qed

theorem fractional_limit_counterexample:
  "CHAT_DURATION_MS shortLimitConfig \<le> now (envAt 1500) - 0
   \<and> activeConversations talkWorld (str ''c1'')
       = Some \<lparr>participantId_ac = Some (str ''p1''), startedAt_ac = 0, lastActivity = Some 0\<rparr>
   \<and> fst (sendMessage shortLimitConfig (envAt 1500) (str ''c1'') (Text (str ''hello there'')) talkWorld)
       = Reply noKeyResponse False
   \<and> activeConversations
        (snd (sendMessage shortLimitConfig (envAt 1500) (str ''c1'') (Text (str ''hello there'')) talkWorld))
        (str ''c1'') \<noteq> None"
  by (simp add: sendMessage_def replyTurn_def readJson_def generateAIResponse_def saveSession_def
      writeJson_def shouldEndNow_eval example_states Let_def)


section \<open>Saving\<close>

lemma saveSession_file_written:
  "\<not> (production cfg \<and> prismaOn cfg) \<Longrightarrow> fileWriteOk out \<Longrightarrow>
   files (fst (saveSession cfg out s w)) = (files w)(sessionId s \<mapsto> s)"
  by (auto simp: saveSession_def writeJson_def split: db_result.splits)

lemma saveSession_tracker [simp]:
  "activeConversations (fst (saveSession cfg out s w)) = activeConversations w"
  by (auto simp: saveSession_def writeJson_def split: db_result.splits)

lemma saveSession_participants [simp]:
  "participants (fst (saveSession cfg out s w)) = participants w"
  by (auto simp: saveSession_def writeJson_def split: db_result.splits)

section \<open>Reply generation never fails\<close>

lemma generateIntelligentFallback_in_replies:
  "generateIntelligentFallback d msgs \<in> set fallbackReplies"
proof -
  have "earlyResponses ! (d mod 3) \<in> set earlyResponses"
    by (rule nth_mem) (simp add: earlyResponses_def)
  moreover have "laterResponses ! (d mod 4) \<in> set laterResponses"
    by (rule nth_mem) (simp add: laterResponses_def)
  ultimately show ?thesis
    by (simp add: generateIntelligentFallback_def fallbackReplies_def Let_def)
qed

lemma generateAIResponse_failed:
  "apiKeySet cfg \<Longrightarrow> p = TimedOut \<or> (\<exists>e. p = ProviderError e) \<Longrightarrow>
   generateAIResponse cfg p d msgs sp = generateIntelligentFallback d msgs"
  by (auto simp: generateAIResponse_def)

lemma generateAIResponse_failed_in_replies:
  "p = TimedOut \<or> (\<exists>e. p = ProviderError e) \<Longrightarrow>
   generateAIResponse cfg p d msgs sp \<in> set fallbackReplies"
  using generateIntelligentFallback_in_replies [of d msgs]
  by (auto simp: generateAIResponse_def fallbackReplies_def)

lemma sendMessage_ordinary:
  assumes "\<not> list_all isWhiteSpace t" and "activeConversations w cid = Some ac"
    and "\<not> CHAT_DURATION_MS cfg \<le> ((now env - startedAt_ac ac) div 1000) * 1000"
    and "\<not> shouldEndNow t"
  shows "sendMessage cfg env cid (Text t) w = replyTurn cfg env cid t ac w"
  using assms by (auto simp: sendMessage_def jsTrim_empty_iff Let_def)

lemma sendMessage_phrase:
  assumes "\<not> list_all isWhiteSpace t" and "activeConversations w cid = Some ac"
    and "\<not> CHAT_DURATION_MS cfg \<le> ((now env - startedAt_ac ac) div 1000) * 1000"
    and "shouldEndNow t"
  shows "sendMessage cfg env cid (Text t) w = endByPhrase cfg env cid t (startedAt_ac ac) w"
  using assms by (auto simp: sendMessage_def jsTrim_empty_iff Let_def)

lemma replyTurn_failure_keeps_world:
  "fst (replyTurn cfg env cid t ac w) = Failure st ty \<Longrightarrow> snd (replyTurn cfg env cid t ac w) = w"
  by (auto simp: replyTurn_def Let_def split: option.splits)

lemma endByPhrase_failure_keeps_world:
  "fst (endByPhrase cfg env cid t start w) = Failure st ty \<Longrightarrow> snd (endByPhrase cfg env cid t start w) = w"
  by (auto simp: endByPhrase_def Let_def split: option.splits prod.splits)

lemma sendMessage_failure_keeps_store:
  assumes "fst (sendMessage cfg env cid body w) = Failure st ty"
  shows "files (snd (sendMessage cfg env cid body w)) = files w
         \<and> dbRaw (snd (sendMessage cfg env cid body w)) = dbRaw w"
proof (cases body)
  case Absent
  then show ?thesis by (simp add: sendMessage_def)
next
  case NonText
  then show ?thesis by (simp add: sendMessage_def)
next
  case (Text t)
  show ?thesis
  proof (cases "list_all isWhiteSpace t")
    case True
    then show ?thesis by (simp add: Text sendMessage_blank)
  next
    case False
    note nonblank = this
    show ?thesis
    proof (cases "activeConversations w cid")
      case None
      with nonblank show ?thesis by (simp add: Text sendMessage_untracked)
    next
      case (Some ac)
      show ?thesis
      proof (cases "CHAT_DURATION_MS cfg \<le> ((now env - startedAt_ac ac) div 1000) * 1000")
        case True
        with nonblank Some show ?thesis by (simp add: Text sendMessage_expired)
      next
        case False
        note intime = this
        show ?thesis
        proof (cases "shouldEndNow t")
          case True
          with nonblank Some intime
          have eq: "sendMessage cfg env cid body w = endByPhrase cfg env cid t (startedAt_ac ac) w"
            by (simp add: Text sendMessage_phrase)
          with assms show ?thesis
            by (simp add: endByPhrase_failure_keeps_world)
        next
          case False
          with nonblank Some intime
          have eq: "sendMessage cfg env cid body w = replyTurn cfg env cid t ac w"
            by (simp add: Text sendMessage_ordinary)
          with assms show ?thesis
            by (simp add: replyTurn_failure_keeps_world)
        qed
      qed
    qed
  qed
qed


lemma replyTurn_loaded:
  assumes "files w cid = Some cd"
  shows "replyTurn cfg env cid t ac w =
     (let userMessage = \<lparr>role = User, content = jsTrim t, timestamp = Some (now env),
                           generated_summary = False\<rparr>;
          reply = generateAIResponse cfg (provider env) (draw env) (messages cd @ [userMessage])
                    (systemPrompt cd);
          assistantMessage = \<lparr>role = Assistant, content = reply, timestamp = Some (replyTime env),
                                generated_summary = False\<rparr>
      in (Reply reply False,
          fst (saveSession cfg (save1 env)
                 (cd\<lparr>messages := messages cd @ [userMessage, assistantMessage]\<rparr>)
                 (w\<lparr>activeConversations := (activeConversations w)(cid \<mapsto>
                       ac\<lparr>lastActivity := Some (now env)\<rparr>)\<rparr>))))"
  using assms by (simp add: replyTurn_def readJson_def Let_def)

lemmas handler_eval =
  sendMessage_def replyTurn_def readJson_def generateAIResponse_def saveSession_def
  writeJson_def shouldEndNow_eval example_states Let_def

lemmas fallback_eval =
  generateIntelligentFallback_def isGibberish_def toLowerCase_def lowerUnit_def

text \<open>
  C3, as the code has it. \<open>generateAIResponse\<close> catches every failure of reply
  generation (the timer's rejection, a rejected call, an empty completion) and
  returns a fallback reply, so a failed generation does not make the turn fail: on
  an open session whose file loads, the request answers with the fallback reply, and
  the user's message and that reply are appended and persisted together by the one
  save of the turn. The error types of the \<open>catch\<close> block are not reached from a
  failed generation. What holds of the atomicity the specification asks for: user message
  and reply are never saved apart, and every error answer of the endpoint leaves
  the stored sessions as they were.
\<close>

theorem failed_generation_is_absorbed:
  assumes "\<not> list_all isWhiteSpace t"
    and "activeConversations w cid = Some ac"
    and "\<not> CHAT_DURATION_MS cfg \<le> ((now env - startedAt_ac ac) div 1000) * 1000"
    and "\<not> shouldEndNow t"
    and "files w cid = Some cd"
    and "apiKeySet cfg"
    and "provider env = TimedOut \<or> (\<exists>e. provider env = ProviderError e)"
  shows "(let userMessage = \<lparr>role = User, content = jsTrim t, timestamp = Some (now env),
                              generated_summary = False\<rparr>;
              reply = generateIntelligentFallback (draw env) (messages cd @ [userMessage]);
              assistantMessage = \<lparr>role = Assistant, content = reply, timestamp = Some (replyTime env),
                                   generated_summary = False\<rparr>
          in sendMessage cfg env cid (Text t) w =
               (Reply reply False,
                fst (saveSession cfg (save1 env)
                       (cd\<lparr>messages := messages cd @ [userMessage, assistantMessage]\<rparr>)
                       (w\<lparr>activeConversations := (activeConversations w)(cid \<mapsto>
                             ac\<lparr>lastActivity := Some (now env)\<rparr>)\<rparr>))))
         \<and> (\<forall>body st ty. fst (sendMessage cfg env cid body w) = Failure st ty \<longrightarrow>
               files (snd (sendMessage cfg env cid body w)) = files w
               \<and> dbRaw (snd (sendMessage cfg env cid body w)) = dbRaw w)"
proof -
  have "sendMessage cfg env cid (Text t) w = replyTurn cfg env cid t ac w"
    using assms(1-4) by (rule sendMessage_ordinary)
  moreover have "generateAIResponse cfg (provider env) d msgs sp = generateIntelligentFallback d msgs"
    for d msgs sp
    using assms(6,7) by (rule generateAIResponse_failed)
  ultimately have "let userMessage = \<lparr>role = User, content = jsTrim t, timestamp = Some (now env),
                              generated_summary = False\<rparr>;
              reply = generateIntelligentFallback (draw env) (messages cd @ [userMessage]);
              assistantMessage = \<lparr>role = Assistant, content = reply, timestamp = Some (replyTime env),
                                   generated_summary = False\<rparr>
          in sendMessage cfg env cid (Text t) w =
               (Reply reply False,
                fst (saveSession cfg (save1 env)
                       (cd\<lparr>messages := messages cd @ [userMessage, assistantMessage]\<rparr>)
                       (w\<lparr>activeConversations := (activeConversations w)(cid \<mapsto>
                             ac\<lparr>lastActivity := Some (now env)\<rparr>)\<rparr>)))"
    by (simp add: replyTurn_loaded [OF assms(5)] Let_def)
  then show ?thesis
    using sendMessage_failure_keeps_store by blast
qed

theorem failed_generation_counterexample:
  "provider (envAt 1000) = TimedOut
   \<and> apiKeySet keyedConfig
   \<and> (case files talkWorld (str ''c1'') of None \<Rightarrow> [] | Some s \<Rightarrow> map content (messages s))
       = [content askedMessage]
   \<and> fst (sendMessage keyedConfig (envAt 1000) (str ''c1'') (Text (str ''Hm.'')) talkWorld)
       = Reply gibberishResponse False
   \<and> (case files (snd (sendMessage keyedConfig (envAt 1000) (str ''c1'') (Text (str ''Hm.'')) talkWorld))
              (str ''c1'') of
         None \<Rightarrow> []
       | Some s \<Rightarrow> map content (messages s))
       = [content askedMessage, str ''Hm.'', gibberishResponse]"
  by (simp add: handler_eval fallback_eval)

theorem failed_generation_is_absorbed_witness:
  "\<not> list_all isWhiteSpace (str ''Hm.'')
   \<and> \<not> CHAT_DURATION_MS keyedConfig \<le> ((now (envAt 1000) - 0) div 1000) * 1000
   \<and> \<not> shouldEndNow (str ''Hm.'')
   \<and> files talkWorld (str ''c1'') = Some talk
   \<and> apiKeySet keyedConfig
   \<and> provider (envAt 1000) = TimedOut
   \<and> fst (sendMessage keyedConfig (envAt 1000) (str ''c1'') (Text (str ''Hm.'')) talkWorld)
       = Reply (generateIntelligentFallback 0
                 (messages talk @ [\<lparr>role = User, content = str ''Hm.'', timestamp = Some 1000,
                                     generated_summary = False\<rparr>])) False"
proof -
  let ?ac = "\<lparr>participantId_ac = Some (str ''p1''), startedAt_ac = 0, lastActivity = Some 0\<rparr>"
  have a: "\<not> list_all isWhiteSpace (str ''Hm.'')"
    by (simp add: isWhiteSpace_def str_def)
  have b: "activeConversations talkWorld (str ''c1'') = Some ?ac"
    by (simp add: talkWorld_def)
  have c: "\<not> CHAT_DURATION_MS keyedConfig \<le> ((now (envAt 1000) - startedAt_ac ?ac) div 1000) * 1000"
    by (simp add: keyedConfig_def envAt_def)
  have d: "\<not> shouldEndNow (str ''Hm.'')"
    by (simp add: shouldEndNow_eval)
  have e: "files talkWorld (str ''c1'') = Some talk"
    by (simp add: talkWorld_def)
  have f: "apiKeySet keyedConfig"
    by (simp add: keyedConfig_def)
  have g: "provider (envAt 1000) = TimedOut"
    by (simp add: envAt_def)
  then have g': "provider (envAt 1000) = TimedOut \<or> (\<exists>e. provider (envAt 1000) = ProviderError e)"
    by simp
  have trimmed: "jsTrim (str ''Hm.'') = str ''Hm.''"
    by (simp add: jsTrim_def isWhiteSpace_def str_def)
  have env: "now (envAt 1000) = 1000" "draw (envAt 1000) = 0"
    by (simp_all add: envAt_def)
  from failed_generation_is_absorbed [OF a b c d e f g']
  have "fst (sendMessage keyedConfig (envAt 1000) (str ''c1'') (Text (str ''Hm.'')) talkWorld)
       = Reply (generateIntelligentFallback 0
                 (messages talk @ [\<lparr>role = User, content = str ''Hm.'', timestamp = Some 1000,
                                     generated_summary = False\<rparr>])) False"
    by (simp add: Let_def trimmed env)
  with a c d e f g show ?thesis by simp
qed

text \<open>
  C8. The provider call is raced against a timer of 25000 ms. When the timer wins,
  \<open>generateAIResponse\<close> returns one of the fixed fallback replies, for every
  history, prompt and random draw; and an ordinary turn on an open session whose
  file loads then answers the submitter with that reply and no error.
\<close>

theorem timed_out_generation_returns_fallback:
  assumes "\<not> list_all isWhiteSpace t"
    and "activeConversations w cid = Some ac"
    and "\<not> CHAT_DURATION_MS cfg \<le> ((now env - startedAt_ac ac) div 1000) * 1000"
    and "\<not> shouldEndNow t"
    and "files w cid = Some cd"
    and "provider env = TimedOut"
  shows "API_TIMEOUT = 25 * 1000
         \<and> generateAIResponse cfg TimedOut d msgs sp \<in> set fallbackReplies
         \<and> (\<exists>reply w'. sendMessage cfg env cid (Text t) w = (Reply reply False, w')
                         \<and> reply \<in> set fallbackReplies)"
proof -
  have any: "generateAIResponse cfg TimedOut d' msgs' sp' \<in> set fallbackReplies" for d' msgs' sp'
    by (rule generateAIResponse_failed_in_replies) simp
  have "sendMessage cfg env cid (Text t) w = replyTurn cfg env cid t ac w"
    using assms(1-4) by (rule sendMessage_ordinary)
  then have "\<exists>reply w'. sendMessage cfg env cid (Text t) w = (Reply reply False, w')
                         \<and> reply \<in> set fallbackReplies"
    using any by (simp add: replyTurn_loaded [OF assms(5)] Let_def assms(6))
  with any show ?thesis
    by (simp add: API_TIMEOUT_def)
qed

theorem timed_out_generation_returns_fallback_witness:
  "\<not> list_all isWhiteSpace (str ''Hm.'')
   \<and> \<not> CHAT_DURATION_MS keyedConfig \<le> ((now (envAt 1000) - 0) div 1000) * 1000
   \<and> \<not> shouldEndNow (str ''Hm.'')
   \<and> files talkWorld (str ''c1'') = Some talk
   \<and> provider (envAt 1000) = TimedOut
   \<and> (\<exists>reply w'. sendMessage keyedConfig (envAt 1000) (str ''c1'') (Text (str ''Hm.'')) talkWorld
                     = (Reply reply False, w')
                   \<and> reply \<in> set fallbackReplies)"
proof -
  let ?ac = "\<lparr>participantId_ac = Some (str ''p1''), startedAt_ac = 0, lastActivity = Some 0\<rparr>"
  have a: "\<not> list_all isWhiteSpace (str ''Hm.'')"
    by (simp add: isWhiteSpace_def str_def)
  have b: "activeConversations talkWorld (str ''c1'') = Some ?ac"
    by (simp add: talkWorld_def)
  have c: "\<not> CHAT_DURATION_MS keyedConfig \<le> ((now (envAt 1000) - startedAt_ac ?ac) div 1000) * 1000"
    by (simp add: keyedConfig_def envAt_def)
  have d: "\<not> shouldEndNow (str ''Hm.'')"
    by (simp add: shouldEndNow_eval)
  have e: "files talkWorld (str ''c1'') = Some talk"
    by (simp add: talkWorld_def)
  have g: "provider (envAt 1000) = TimedOut"
    by (simp add: envAt_def)
  from timed_out_generation_returns_fallback [OF a b c d e g] a c d e g
  show ?thesis by simp
qed


section \<open>The summary safety net\<close>

lemma includesStr_Nil [simp]: "includesStr s []"
  by (cases s) simp_all

lemma includesStr_append: "includesStr a k \<Longrightarrow> includesStr (a @ b) k"
proof (induction a)
  case Nil
  then show ?case by simp
next
  case (Cons c cs)
  then show ?case
    by (auto intro: prefix_prefix [of k "c # cs" b, simplified])
qed

lemma toLowerCase_append: "toLowerCase (a @ b) = toLowerCase a @ toLowerCase b"
  by (simp add: toLowerCase_def)

lemma includesStr_middle: "includesStr (a @ k @ b) k"
proof (induction a)
  case Nil
  then show ?case by (cases k) simp_all
next
  case (Cons c cs)
  then show ?case by simp
qed

lemma str_append: "str (a @ b) = str a @ str b"
  by (simp add: str_def)

lemma summaryPreamble_split:
  "summaryPreamble =
     str ''Thank you for sharing your story with me. Let me '' @ str ''summarize''
     @ str '' the key themes from our conversation:''"
  unfolding summaryPreamble_def str_append [symmetric] by simp

lemma toLowerCase_summarize: "toLowerCase (str ''summarize'') = str ''summarize''"
  by (simp add: toLowerCase_def lowerUnit_def str_def)

lemma summaryPreamble_summarize:
  "includesStr (toLowerCase summaryPreamble) (str ''summarize'')"
  unfolding summaryPreamble_split toLowerCase_append toLowerCase_summarize
  by (rule includesStr_middle)

lemma summaryLike_summaryMessage: "summaryLike (summaryMessage pts t)"
proof -
  have "includesStr (toLowerCase (summaryText pts)) (str ''summarize'')"
    unfolding summaryText_def toLowerCase_append
    by (rule includesStr_append) (rule summaryPreamble_summarize)
  then show ?thesis
    by (simp add: summaryLike_def summaryMessage_def)
qed

lemma takeLast_snoc: "0 < n \<Longrightarrow> takeLast n (xs @ [x]) = takeLast (n - 1) xs @ [x]"
  by (auto simp: takeLast_def)

lemma fallbackHasExistingSummary_snoc:
  assumes "role m = Assistant" and "summaryLike m"
  shows "fallbackHasExistingSummary (msgs @ [m])"
  using assms by (simp add: fallbackHasExistingSummary_def takeLast_snoc)

lemma withSummary_has_summary: "fallbackHasExistingSummary (messages (withSummary w pid t cd))"
proof -
  have "role (summaryMessage pts t) = Assistant" for pts
    by (simp add: summaryMessage_def)
  then show ?thesis
    by (simp add: withSummary_def Let_def fallbackHasExistingSummary_snoc summaryLike_summaryMessage)
qed

lemma withSummary_fields [simp]:
  "sessionId (withSummary w pid t cd) = sessionId cd"
  "participantId (withSummary w pid t cd) = participantId cd"
  "endedAt (withSummary w pid t cd) = endedAt cd"
  "durationSeconds (withSummary w pid t cd) = durationSeconds cd"
  "startedAt (withSummary w pid t cd) = startedAt cd"
  by (simp_all add: withSummary_def Let_def)

lemma fallbackGenerateSummary_participants:
  assumes "participants w' = participants w"
  shows "fallbackGenerateSummary w' msgs pid = fallbackGenerateSummary w msgs pid"
  unfolding fallbackGenerateSummary_def assms by (rule refl)

lemma withSummary_participants:
  assumes "participants w' = participants w"
  shows "withSummary w' pid t cd = withSummary w pid t cd"
  unfolding withSummary_def fallbackGenerateSummary_participants [OF assms] by (rule refl)

lemma ensure_missing:
  "files w cid = None \<Longrightarrow> fallbackEnsureConversationSummary cfg t out cid pid w = w"
  by (simp add: fallbackEnsureConversationSummary_def readJson_def)

lemma ensure_present:
  "files w cid = Some cd \<Longrightarrow> fallbackHasExistingSummary (messages cd) \<Longrightarrow>
   fallbackEnsureConversationSummary cfg t out cid pid w = w"
  by (simp add: fallbackEnsureConversationSummary_def readJson_def)

lemma ensure_needed:
  "files w cid = Some cd \<Longrightarrow> \<not> fallbackHasExistingSummary (messages cd) \<Longrightarrow>
   fallbackEnsureConversationSummary cfg t out cid pid w
     = fst (saveSession cfg out (withSummary w pid t cd) w)"
  by (simp add: fallbackEnsureConversationSummary_def readJson_def)

lemma saveSession_files_cases:
  "files (fst (saveSession cfg out s w)) = files w
   \<or> files (fst (saveSession cfg out s w)) = (files w)(sessionId s \<mapsto> s)"
  by (auto simp: saveSession_def writeJson_def split: db_result.splits)

lemma saveSession_dbRaw_cases:
  "dbRaw (fst (saveSession cfg out s w)) = dbRaw w
   \<or> dbRaw (fst (saveSession cfg out s w)) = (dbRaw w)(sessionId s \<mapsto> s)"
  by (auto simp: saveSession_def writeJson_def split: db_result.splits)


lemma ensure_twice_cases:
  fixes cfg :: config and cid pid :: jsstring and w :: world and t1 t2 :: int
    and out1 out2 :: save_outcome
  assumes "files w cid = Some cd" and "\<not> fallbackHasExistingSummary (messages cd)"
  defines "once \<equiv> fst (saveSession cfg out1 (withSummary w pid t1 cd) w)"
  shows "fallbackEnsureConversationSummary cfg t2 out2 cid pid once = once
         \<or> fallbackEnsureConversationSummary cfg t2 out2 cid pid once
             = fst (saveSession cfg out2 (withSummary w pid t2 cd) once)"
proof -
  have same: "withSummary once pid t2 cd = withSummary w pid t2 cd"
    by (rule withSummary_participants) (simp add: once_def)
  have "files once = files w \<or> files once = (files w)(sessionId cd \<mapsto> withSummary w pid t1 cd)"
    using saveSession_files_cases [of cfg out1 "withSummary w pid t1 cd" w]
    by (simp add: once_def)
  then have "files once cid = Some cd \<or> files once cid = Some (withSummary w pid t1 cd)"
    using assms(1) by (auto simp: fun_upd_apply)
  then show ?thesis
  proof
    assume "files once cid = Some cd"
    then have "fallbackEnsureConversationSummary cfg t2 out2 cid pid once
               = fst (saveSession cfg out2 (withSummary once pid t2 cd) once)"
      using assms(2) by (rule ensure_needed)
    then show ?thesis by (simp add: same)
  next
    assume "files once cid = Some (withSummary w pid t1 cd)"
    then have "fallbackEnsureConversationSummary cfg t2 out2 cid pid once = once"
      by (rule ensure_present) (rule withSummary_has_summary)
    then show ?thesis by simp
  qed
qed

lemma two_updates:
  assumes "m1 = m \<or> m1 = m(a \<mapsto> x)" and "m2 = m1 \<or> m2 = m1(a \<mapsto> y)"
  shows "m2 k = m k \<or> (k = a \<and> (m2 k = Some x \<or> m2 k = Some y))"
  using assms by (cases "k = a") auto

lemma ensure_written:
  assumes "files w cid = Some cd" and "\<not> fallbackHasExistingSummary (messages cd)"
    and "sessionId cd = cid" and "\<not> (production cfg \<and> prismaOn cfg)" and "fileWriteOk out"
  shows "files (fallbackEnsureConversationSummary cfg t out cid pid w) cid
           = Some (withSummary w pid t cd)"
  using assms by (simp add: ensure_needed saveSession_file_written)

text \<open>
  C7. The safety net is idempotent. Whatever the stores do with the two writes,
  after two invocations in succession every stored copy of a session (conversation
  file or row of the primary store) is what it was before, or the loaded session
  with exactly one generated summary message appended: never two. And when the
  first write reaches the conversation file (the file is kept under the session's
  id, the file store is in use and the write succeeds), the second invocation
  changes nothing, because the summary just appended is itself found as an existing
  summary; the file then holds the loaded messages followed by the one summary
  message, or the loaded messages alone when they already held a summary.
\<close>

theorem ensureSummary_idempotent:
  fixes cfg :: config and cid pid :: jsstring and w :: world and t1 t2 :: int
    and out1 out2 :: save_outcome
  defines "once \<equiv> fallbackEnsureConversationSummary cfg t1 out1 cid pid w"
  defines "twice \<equiv> fallbackEnsureConversationSummary cfg t2 out2 cid pid once"
  shows "(\<forall>k. (files twice k = files w k
               \<or> (\<exists>cd. files w cid = Some cd \<and> \<not> fallbackHasExistingSummary (messages cd)
                     \<and> k = sessionId cd
                     \<and> (files twice k = Some (withSummary w pid t1 cd)
                          \<or> files twice k = Some (withSummary w pid t2 cd))))
            \<and> (dbRaw twice k = dbRaw w k
               \<or> (\<exists>cd. files w cid = Some cd \<and> \<not> fallbackHasExistingSummary (messages cd)
                     \<and> k = sessionId cd
                     \<and> (dbRaw twice k = Some (withSummary w pid t1 cd)
                          \<or> dbRaw twice k = Some (withSummary w pid t2 cd)))))
         \<and> (\<forall>cd. messages (withSummary w pid t1 cd)
                    = messages cd @ [summaryMessage (fallbackGenerateSummary w (messages cd) pid) t1])
         \<and> ((\<forall>cd. files w cid = Some cd \<longrightarrow> sessionId cd = cid)
              \<and> \<not> (production cfg \<and> prismaOn cfg) \<and> fileWriteOk out1
             \<longrightarrow> twice = once
                 \<and> files once cid
                     = (case files w cid of
                          None \<Rightarrow> None
                        | Some cd \<Rightarrow> if fallbackHasExistingSummary (messages cd) then Some cd
                                     else Some (withSummary w pid t1 cd)))"
proof (cases "files w cid")
  case None
  then have "once = w" "twice = w"
    by (simp_all add: once_def twice_def ensure_missing)
  then show ?thesis
    by (simp add: None withSummary_def Let_def)
next
  case (Some cd)
  show ?thesis
  proof (cases "fallbackHasExistingSummary (messages cd)")
    case True
    with Some have "once = w" "twice = w"
      by (simp_all add: once_def twice_def ensure_present)
    then show ?thesis
      by (simp add: Some True withSummary_def Let_def)
  next
    case False
    let ?s1 = "withSummary w pid t1 cd" and ?s2 = "withSummary w pid t2 cd"
    have once: "once = fst (saveSession cfg out1 ?s1 w)"
      using Some False by (simp add: once_def ensure_needed)
    have f1: "files once = files w \<or> files once = (files w)(sessionId cd \<mapsto> ?s1)"
      using saveSession_files_cases [of cfg out1 ?s1 w] by (simp add: once)
    have d1: "dbRaw once = dbRaw w \<or> dbRaw once = (dbRaw w)(sessionId cd \<mapsto> ?s1)"
      using saveSession_dbRaw_cases [of cfg out1 ?s1 w] by (simp add: once)
    have tw: "twice = once \<or> twice = fst (saveSession cfg out2 ?s2 once)"
      unfolding twice_def once by (rule ensure_twice_cases [OF Some False])
    have f2: "files twice = files once \<or> files twice = (files once)(sessionId cd \<mapsto> ?s2)"
      using tw saveSession_files_cases [of cfg out2 ?s2 once] by auto
    have d2: "dbRaw twice = dbRaw once \<or> dbRaw twice = (dbRaw once)(sessionId cd \<mapsto> ?s2)"
      using tw saveSession_dbRaw_cases [of cfg out2 ?s2 once] by auto
    have stores: "(files twice k = files w k
               \<or> (k = sessionId cd \<and> (files twice k = Some ?s1 \<or> files twice k = Some ?s2)))
            \<and> (dbRaw twice k = dbRaw w k
               \<or> (k = sessionId cd \<and> (dbRaw twice k = Some ?s1 \<or> dbRaw twice k = Some ?s2)))" for k
      using two_updates [OF f1 f2, of k] two_updates [OF d1 d2, of k] by simp
    have noop: "twice = once \<and> files once cid = Some ?s1"
      if "sessionId cd = cid" "\<not> (production cfg \<and> prismaOn cfg)" "fileWriteOk out1"
    proof -
      have "files once cid = Some ?s1"
        unfolding once_def using Some False that by (rule ensure_written)
      moreover from this have "twice = once"
        unfolding twice_def by (rule ensure_present) (rule withSummary_has_summary)
      ultimately show ?thesis by simp
    qed
    have shape: "\<forall>cd. messages (withSummary w pid t1 cd)
                    = messages cd @ [summaryMessage (fallbackGenerateSummary w (messages cd) pid) t1]"
      by (simp add: withSummary_def Let_def)
    from stores noop shape show ?thesis
      using Some False by auto
  qed
qed

lemma askedMessage_no_summary: "\<not> fallbackHasExistingSummary (messages talk)"
  by (simp add: fallbackHasExistingSummary_def takeLast_def summaryLike_def talk_def
      askedMessage_def bulletMarker_def isBulletUnit_def toLowerCase_def lowerUnit_def str_def)

theorem ensureSummary_idempotent_witness:
  "files talkWorld (str ''c1'') = Some talk
   \<and> sessionId talk = str ''c1''
   \<and> \<not> (production devConfig \<and> prismaOn devConfig)
   \<and> fileWriteOk savedOk
   \<and> \<not> fallbackHasExistingSummary (messages talk)
   \<and> fallbackEnsureConversationSummary devConfig 9 savedOk (str ''c1'') (str ''p1'')
        (fallbackEnsureConversationSummary devConfig 5 savedOk (str ''c1'') (str ''p1'') talkWorld)
       = fallbackEnsureConversationSummary devConfig 5 savedOk (str ''c1'') (str ''p1'') talkWorld
   \<and> (case files (fallbackEnsureConversationSummary devConfig 5 savedOk (str ''c1'') (str ''p1'') talkWorld)
              (str ''c1'') of
         None \<Rightarrow> []
       | Some s \<Rightarrow> map generated_summary (messages s)) = [False, True]"
proof -
  have a: "files talkWorld (str ''c1'') = Some talk"
    by (simp add: talkWorld_def)
  have b: "sessionId talk = str ''c1''"
    by (simp add: talk_def)
  have c: "\<not> (production devConfig \<and> prismaOn devConfig)" and d: "fileWriteOk savedOk"
    by (simp_all add: devConfig_def savedOk_def)
  note e = askedMessage_no_summary
  from a b have stored: "\<forall>cd. files talkWorld (str ''c1'') = Some cd \<longrightarrow> sessionId cd = str ''c1''"
    by simp
  have flags: "map generated_summary (messages talk) = [False]"
    by (simp add: talk_def askedMessage_def)
  from ensureSummary_idempotent [where cfg = devConfig and w = talkWorld and cid = "str ''c1''"
      and pid = "str ''p1''" and ?t1.0 = 5 and ?t2.0 = 9 and ?out1.0 = savedOk and ?out2.0 = savedOk]
    stored c d
  have noop: "fallbackEnsureConversationSummary devConfig 9 savedOk (str ''c1'') (str ''p1'')
        (fallbackEnsureConversationSummary devConfig 5 savedOk (str ''c1'') (str ''p1'') talkWorld)
       = fallbackEnsureConversationSummary devConfig 5 savedOk (str ''c1'') (str ''p1'') talkWorld"
    and stored_file: "files (fallbackEnsureConversationSummary devConfig 5 savedOk (str ''c1'') (str ''p1'') talkWorld)
              (str ''c1'') = Some (withSummary talkWorld (str ''p1'') 5 talk)"
    and "messages (withSummary talkWorld (str ''p1'') 5 talk)
          = messages talk @ [summaryMessage (fallbackGenerateSummary talkWorld (messages talk) (str ''p1'')) 5]"
    using a e by simp_all
  then show ?thesis
    using a b c d e flags by (simp add: summaryMessage_def)
qed


section \<open>Closing a session\<close>

lemma addedSummary_has_summary:
  "fallbackHasExistingSummary (messages cd @ addedSummary w pid t cd)"
proof (cases "fallbackHasExistingSummary (messages cd)")
  case True
  then show ?thesis by (simp add: addedSummary_def)
next
  case False
  then have "messages cd @ addedSummary w pid t cd = messages (withSummary w pid t cd)"
    by (simp add: addedSummary_def withSummary_def Let_def)
  then show ?thesis
    by (simp only: withSummary_has_summary)
qed

lemma addedSummary_length: "length (addedSummary w pid t cd) \<le> 1"
  by (simp add: addedSummary_def)

lemma ensure_tracker [simp]:
  "activeConversations (fallbackEnsureConversationSummary cfg t out cid pid w) = activeConversations w"
  by (simp add: fallbackEnsureConversationSummary_def readJson_def split: option.splits)

lemma ensure_file_loaded:
  assumes "files w cid = Some cd" and "sessionId cd = cid"
    and "\<not> (production cfg \<and> prismaOn cfg)" and "fileWriteOk out"
  shows "files (fallbackEnsureConversationSummary cfg t out cid pid w) cid
           = Some (cd\<lparr>messages := messages cd @ addedSummary w pid t cd\<rparr>)"
proof (cases "fallbackHasExistingSummary (messages cd)")
  case True
  with assms(1) show ?thesis
    by (simp add: ensure_present addedSummary_def)
next
  case False
  with assms have "files (fallbackEnsureConversationSummary cfg t out cid pid w) cid
           = Some (withSummary w pid t cd)"
    by (simp add: ensure_written)
  with False show ?thesis
    by (simp add: withSummary_def addedSummary_def Let_def)
qed

lemma ensureAndReload_loaded:
  assumes "files w cid = Some cd" and "sessionId cd = cid" and "participantId cd \<noteq> []"
    and "\<not> (production cfg \<and> prismaOn cfg)" and "fileWriteOk (save1 env)"
  shows "ensureAndReload cfg env cid cd current w
           = (messages cd @ addedSummary w (participantId cd) (summaryTime env) cd,
              fallbackEnsureConversationSummary cfg (summaryTime env) (save1 env) cid (participantId cd) w)"
  using assms(3) ensure_file_loaded [OF assms(1,2,4,5)]
  by (simp add: ensureAndReload_def readJson_def Let_def)

lemma endConversation_loaded:
  assumes "activeConversations w cid = Some ac" and "files w cid = Some cd"
    and "sessionId cd = cid" and "participantId cd \<noteq> []"
    and "\<not> (production cfg \<and> prismaOn cfg)" and "fileWriteOk (save1 env)"
  shows "endConversation cfg env cid w =
           (Ended,
            evict cid (fst (saveSession cfg (save2 env)
              (cd\<lparr>messages := messages cd @ addedSummary w (participantId cd) (summaryTime env) cd,
                  endedAt := Some (now env),
                  durationSeconds := Some ((now env - startedAt cd) div 1000)\<rparr>)
              (fallbackEnsureConversationSummary cfg (summaryTime env) (save1 env) cid
                 (participantId cd) w))))"
  using assms(1,2)
  by (simp add: endConversation_def readJson_def Let_def ensureAndReload_loaded [OF assms(2-6)])

lemma endByPhrase_loaded:
  assumes "files w cid = Some cd"
    and "sessionId cd = cid" and "participantId cd \<noteq> []"
    and "\<not> (production cfg \<and> prismaOn cfg)" and "fileWriteOk (save1 env)"
  shows "endByPhrase cfg env cid t start w =
           (Reply closingReply True,
            evict cid (fst (saveSession cfg (save2 env)
              (cd\<lparr>messages := messages cd @ addedSummary w (participantId cd) (summaryTime env) cd
                              @ [finalMessage (replyTime env)],
                  endedAt := Some (now env),
                  durationSeconds := Some ((now env - start) div 1000)\<rparr>)
              (fallbackEnsureConversationSummary cfg (summaryTime env) (save1 env) cid
                 (participantId cd) w))))"
  using assms(1)
  by (simp add: endByPhrase_def readJson_def Let_def ensureAndReload_loaded [OF assms(1-5)]
      finalMessage_def)

lemma summaryText_not_closingReply: "summaryText pts \<noteq> closingReply"
proof -
  have "hd (summaryText pts) = 84"
    by (simp add: summaryText_def summaryPreamble_def str_def)
  moreover have "hd closingReply = 79"
    by (simp add: closingReply_def str_def)
  ultimately show ?thesis by auto
qed

text \<open>
  C2, as the code has it. On a tracked session whose file loads, is kept under the
  session's id and names a participant, and with writes that reach the conversation
  file, the explicit end and the phrase-triggered end both store the loaded messages
  followed by what the safety net added (nothing when a summary was there, exactly
  one generated summary message otherwise, so that the stored messages hold a
  summary), set the end timestamp and the duration, and remove the id from the
  tracker. Only the phrase-triggered end appends the fixed closing assistant
  message, after the summary, and answers with it; the explicit end answers
  \<open>{ok: true}\<close> and stores no closing message.
\<close>

theorem both_endings_close_with_summary:
  assumes "activeConversations w cid = Some ac"
    and "files w cid = Some cd" and "sessionId cd = cid" and "participantId cd \<noteq> []"
    and "\<not> (production cfg \<and> prismaOn cfg)"
    and "fileWriteOk (save1 env)" and "fileWriteOk (save2 env)"
    and "\<not> list_all isWhiteSpace t"
    and "\<not> CHAT_DURATION_MS cfg \<le> ((now env - startedAt_ac ac) div 1000) * 1000"
    and "shouldEndNow t"
  shows "(let summary = addedSummary w (participantId cd) (summaryTime env) cd;
              explicit = endConversation cfg env cid w;
              phrase = sendMessage cfg env cid (Text t) w
          in fst explicit = Ended
             \<and> files (snd explicit) cid
                 = Some (cd\<lparr>messages := messages cd @ summary,
                             endedAt := Some (now env),
                             durationSeconds := Some ((now env - startedAt cd) div 1000)\<rparr>)
             \<and> activeConversations (snd explicit) cid = None
             \<and> fst phrase = Reply closingReply True
             \<and> files (snd phrase) cid
                 = Some (cd\<lparr>messages := messages cd @ summary @ [finalMessage (replyTime env)],
                             endedAt := Some (now env),
                             durationSeconds := Some ((now env - startedAt_ac ac) div 1000)\<rparr>)
             \<and> activeConversations (snd phrase) cid = None
             \<and> fallbackHasExistingSummary (messages cd @ summary)
             \<and> length summary \<le> 1)"
proof -
  have phrase: "sendMessage cfg env cid (Text t) w = endByPhrase cfg env cid t (startedAt_ac ac) w"
    using assms(8,1,9,10) by (rule sendMessage_phrase)
  have written: "files (fst (saveSession cfg (save2 env) s w')) = (files w')(sessionId s \<mapsto> s)"
    for s w'
    using assms(5,7) by (rule saveSession_file_written)
  show ?thesis
    unfolding Let_def phrase
      endConversation_loaded [OF assms(1,2,3,4,5,6)]
      endByPhrase_loaded [OF assms(2,3,4,5,6)]
    using assms(3) addedSummary_length [of w "participantId cd" "summaryTime env" cd]
    by (simp add: written addedSummary_has_summary)
qed

theorem both_endings_close_with_summary_witness:
  "files talkWorld (str ''c1'') = Some talk
   \<and> sessionId talk = str ''c1'' \<and> participantId talk \<noteq> []
   \<and> fileWriteOk (save1 (envAt 60000)) \<and> fileWriteOk (save2 (envAt 60000))
   \<and> \<not> list_all isWhiteSpace (str ''end the chat'')
   \<and> \<not> CHAT_DURATION_MS devConfig \<le> ((now (envAt 60000) - 0) div 1000) * 1000
   \<and> shouldEndNow (str ''end the chat'')
   \<and> fst (endConversation devConfig (envAt 60000) (str ''c1'') talkWorld) = Ended
   \<and> activeConversations (snd (endConversation devConfig (envAt 60000) (str ''c1'') talkWorld)) (str ''c1'') = None
   \<and> fst (sendMessage devConfig (envAt 60000) (str ''c1'') (Text (str ''end the chat'')) talkWorld)
       = Reply closingReply True
   \<and> (case files (snd (sendMessage devConfig (envAt 60000) (str ''c1'') (Text (str ''end the chat'')) talkWorld))
              (str ''c1'') of
         None \<Rightarrow> []
       | Some s \<Rightarrow> map generated_summary (messages s)) = [False, True, False]"
proof -
  let ?ac = "\<lparr>participantId_ac = Some (str ''p1''), startedAt_ac = 0, lastActivity = Some 0\<rparr>"
  have a: "activeConversations talkWorld (str ''c1'') = Some ?ac"
    by (simp add: talkWorld_def)
  have b: "files talkWorld (str ''c1'') = Some talk"
    by (simp add: talkWorld_def)
  have c: "sessionId talk = str ''c1''" and d: "participantId talk \<noteq> []"
    by (simp_all add: talk_def str_def)
  have e: "\<not> (production devConfig \<and> prismaOn devConfig)"
    by (simp add: devConfig_def)
  have f: "fileWriteOk (save1 (envAt 60000))" and g: "fileWriteOk (save2 (envAt 60000))"
    by (simp_all add: envAt_def savedOk_def)
  have h: "\<not> list_all isWhiteSpace (str ''end the chat'')"
    by (simp add: isWhiteSpace_def str_def)
  have i: "\<not> CHAT_DURATION_MS devConfig \<le> ((now (envAt 60000) - startedAt_ac ?ac) div 1000) * 1000"
    by (simp add: devConfig_def envAt_def)
  have j: "shouldEndNow (str ''end the chat'')"
    by (simp add: shouldEndNow_eval)
  have flags: "map generated_summary (messages talk) = [False]"
    by (simp add: talk_def askedMessage_def)
  have added: "map generated_summary (addedSummary talkWorld (participantId talk) (summaryTime (envAt 60000)) talk)
                = [True]"
    using askedMessage_no_summary by (simp add: addedSummary_def summaryMessage_def)
  from both_endings_close_with_summary [OF a b c d e f g h i j]
  show ?thesis
    using b c d f g h i j flags added
    by (simp add: Let_def finalMessage_def)
qed

theorem explicit_end_counterexample:
  "activeConversations talkWorld (str ''c1'')
     = Some \<lparr>participantId_ac = Some (str ''p1''), startedAt_ac = 0, lastActivity = Some 0\<rparr>
   \<and> fst (endConversation devConfig (envAt 60000) (str ''c1'') talkWorld) = Ended
   \<and> (case files (snd (endConversation devConfig (envAt 60000) (str ''c1'') talkWorld)) (str ''c1'') of
         None \<Rightarrow> []
       | Some s \<Rightarrow> map generated_summary (messages s)) = [False, True]
   \<and> (case files (snd (endConversation devConfig (envAt 60000) (str ''c1'') talkWorld)) (str ''c1'') of
         None \<Rightarrow> []
       | Some s \<Rightarrow> filter (\<lambda>m. content m = closingReply) (messages s)) = []"
proof -
  let ?ac = "\<lparr>participantId_ac = Some (str ''p1''), startedAt_ac = 0, lastActivity = Some 0\<rparr>"
  have a: "activeConversations talkWorld (str ''c1'') = Some ?ac"
    by (simp add: talkWorld_def)
  have b: "files talkWorld (str ''c1'') = Some talk"
    by (simp add: talkWorld_def)
  have c: "sessionId talk = str ''c1''" and d: "participantId talk \<noteq> []"
    by (simp_all add: talk_def str_def)
  have e: "\<not> (production devConfig \<and> prismaOn devConfig)"
    by (simp add: devConfig_def)
  have f: "fileWriteOk (save1 (envAt 60000))" and g: "fileWriteOk (save2 (envAt 60000))"
    by (simp_all add: envAt_def savedOk_def)
  have asked: "content askedMessage \<noteq> closingReply"
    by (simp add: askedMessage_def closingReply_def str_def)
  have msgs: "messages talk = [askedMessage]"
    by (simp add: talk_def)
  have flag: "generated_summary askedMessage = False"
    by (simp add: askedMessage_def)
  have added: "addedSummary talkWorld (participantId talk) (summaryTime (envAt 60000)) talk
      = [summaryMessage (fallbackGenerateSummary talkWorld (messages talk) (participantId talk))
           (summaryTime (envAt 60000))]"
    using askedMessage_no_summary by (simp add: addedSummary_def)
  have written: "files (fst (saveSession devConfig (save2 (envAt 60000)) s w')) = (files w')(sessionId s \<mapsto> s)"
    for s w'
    using e g by (rule saveSession_file_written)
  show ?thesis
    unfolding endConversation_loaded [OF a b c d e f]
    using a c asked flag
    by (simp add: written added msgs summaryMessage_def summaryText_not_closingReply)
qed


section \<open>Start-up\<close>











section \<open>The end fields on the other operations\<close>

lemma saveSession_endedTogether:
  assumes "endedTogether s" and "storeEndedTogether w"
  shows "storeEndedTogether (fst (saveSession cfg out s w))"
proof -
  let ?w = "fst (saveSession cfg out s w)"
  have f: "files ?w = files w \<or> files ?w = (files w)(sessionId s \<mapsto> s)"
    by (rule saveSession_files_cases)
  have d: "dbRaw ?w = dbRaw w \<or> dbRaw ?w = (dbRaw w)(sessionId s \<mapsto> s)"
    by (rule saveSession_dbRaw_cases)
  have "endedTogether x" if "files ?w k = Some x" for k x
    using f that assms by (auto simp: storeEndedTogether_def split: if_splits)
  moreover have "endedTogether x" if "dbRaw ?w k = Some x" for k x
    using d that assms by (auto simp: storeEndedTogether_def split: if_splits)
  ultimately show ?thesis
    unfolding storeEndedTogether_def by blast
qed

lemma evict_endedTogether [simp]: "storeEndedTogether (evict cid w) = storeEndedTogether w"
  by (simp add: storeEndedTogether_def)

lemma tracker_update_endedTogether [simp]:
  "storeEndedTogether (w\<lparr>activeConversations := a\<rparr>) = storeEndedTogether w"
  by (simp add: storeEndedTogether_def)

lemma stored_endedTogether:
  "storeEndedTogether w \<Longrightarrow> files w cid = Some cd \<Longrightarrow> endedTogether cd"
  by (auto simp: storeEndedTogether_def)

lemma ensure_endedTogether:
  assumes "storeEndedTogether w"
  shows "storeEndedTogether (fallbackEnsureConversationSummary cfg t out cid pid w)"
proof (cases "files w cid")
  case None
  with assms show ?thesis by (simp add: ensure_missing)
next
  case (Some cd)
  show ?thesis
  proof (cases "fallbackHasExistingSummary (messages cd)")
    case True
    with Some assms show ?thesis by (simp add: ensure_present)
  next
    case False
    have "endedTogether (withSummary w pid t cd)"
      using stored_endedTogether [OF assms Some] by (simp add: endedTogether_def)
    then show ?thesis
      using Some False assms by (simp add: ensure_needed saveSession_endedTogether)
  qed
qed

lemma ensureAndReload_endedTogether:
  "storeEndedTogether w \<Longrightarrow> storeEndedTogether (snd (ensureAndReload cfg env cid cd current w))"
  by (auto simp: ensureAndReload_def Let_def ensure_endedTogether split: option.splits)

lemma startConversation_endedTogether:
  assumes "storeEndedTogether w"
  shows "storeEndedTogether (snd (startConversation cfg env body w))"
  using assms
  by (auto simp: startConversation_def Let_def saveSession_endedTogether endedTogether_def
      split: option.splits)

lemma replyTurn_endedTogether:
  assumes "storeEndedTogether w"
  shows "storeEndedTogether (snd (replyTurn cfg env cid t ac w))"
proof (cases "files w cid")
  case None
  with assms show ?thesis by (simp add: replyTurn_def readJson_def)
next
  case (Some cd)
  have "endedTogether (cd\<lparr>messages := ms\<rparr>)" for ms
    using stored_endedTogether [OF assms Some] by (simp add: endedTogether_def)
  then show ?thesis
    using assms by (simp add: replyTurn_loaded [OF Some] Let_def saveSession_endedTogether)
qed

lemma endByPhrase_endedTogether:
  assumes "storeEndedTogether w"
  shows "storeEndedTogether (snd (endByPhrase cfg env cid t start w))"
proof (cases "files w cid")
  case None
  with assms show ?thesis by (simp add: endByPhrase_def readJson_def)
next
  case (Some cd)
  have closed: "endedTogether (cd\<lparr>messages := ms, endedAt := Some a, durationSeconds := Some b\<rparr>)"
    for ms a b
    by (simp add: endedTogether_def)
  obtain msgs w1 where r: "ensureAndReload cfg env cid cd
      (messages cd @ [\<lparr>role = User, content = jsTrim t, timestamp = Some (now env),
                         generated_summary = False\<rparr>]) w = (msgs, w1)"
    by (cases "ensureAndReload cfg env cid cd
      (messages cd @ [\<lparr>role = User, content = jsTrim t, timestamp = Some (now env),
                         generated_summary = False\<rparr>]) w")
  then have "storeEndedTogether w1"
    using ensureAndReload_endedTogether [OF assms, of cfg env cid cd] by (metis snd_conv)
  then show ?thesis
    by (simp add: endByPhrase_def readJson_def Some Let_def r saveSession_endedTogether closed)
qed

lemma sendMessage_endedTogether:
  assumes "storeEndedTogether w"
  shows "storeEndedTogether (snd (sendMessage cfg env cid body w))"
  using assms
  by (auto simp: sendMessage_def Let_def replyTurn_endedTogether endByPhrase_endedTogether
      split: body_value.splits option.splits)

lemma endConversation_endedTogether:
  assumes "storeEndedTogether w"
  shows "storeEndedTogether (snd (endConversation cfg env cid w))"
proof (cases "activeConversations w cid")
  case None
  with assms show ?thesis by (simp add: endConversation_def)
next
  case tracked: (Some ac)
  show ?thesis
  proof (cases "files w cid")
    case None
    with assms tracked show ?thesis by (simp add: endConversation_def readJson_def)
  next
    case (Some cd)
    have closed: "endedTogether (cd\<lparr>messages := ms, endedAt := Some a, durationSeconds := Some b\<rparr>)"
      for ms a b
      by (simp add: endedTogether_def)
    obtain msgs w1 where r: "ensureAndReload cfg env cid cd (messages cd) w = (msgs, w1)"
      by (cases "ensureAndReload cfg env cid cd (messages cd) w")
    then have "storeEndedTogether w1"
      using ensureAndReload_endedTogether [OF assms, of cfg env cid cd] by (metis snd_conv)
    then show ?thesis
      by (simp add: endConversation_def readJson_def tracked Some Let_def r
          saveSession_endedTogether closed)
  qed
qed

section \<open>The fallback start\<close>

text \<open>
  C1. The conversation start, the message endpoint (ordinary turn and phrase end)
  and the explicit end keep the invariant on every stored session, as the lemmas
  above show. The fallback \<open>/chat/start\<close> does not: it writes its initial session
  with \<open>endedAt: null\<close> and \<open>durationSeconds: 0\<close>, so whenever its writes reach
  the conversation file, the stored session has a duration and no end timestamp.
\<close>

theorem chatStart_stores_duration_without_end:
  assumes "\<not> (production cfg \<and> prismaOn cfg)"
    and "fileWriteOk (save1 env)" and "fileWriteOk (save2 env)"
  shows "\<exists>s. files (snd (chatStart cfg env userId w)) (newId env) = Some s
             \<and> endedAt s = None \<and> durationSeconds s = Some 0"
  using assms
  by (cases "openingLine env")
     (simp_all add: chatStart_def Let_def saveSession_file_written)

theorem chatStart_stores_duration_without_end_witness:
  "\<not> (production devConfig \<and> prismaOn devConfig)
   \<and> fileWriteOk (save1 (envAt 0)) \<and> fileWriteOk (save2 (envAt 0))
   \<and> (case files (snd (chatStart devConfig (envAt 0) None emptyWorld)) (str ''c2'') of
         None \<Rightarrow> False
       | Some s \<Rightarrow> endedAt s = None \<and> durationSeconds s = Some 0)"
proof -
  have a: "\<not> (production devConfig \<and> prismaOn devConfig)"
    by (simp add: devConfig_def)
  have b: "fileWriteOk (save1 (envAt 0))" and c: "fileWriteOk (save2 (envAt 0))"
    by (simp_all add: envAt_def savedOk_def)
  have d: "newId (envAt 0) = str ''c2''"
    by (simp add: envAt_def)
  from chatStart_stores_duration_without_end [OF a b c, of None emptyWorld] a b c
  show ?thesis unfolding d by auto
qed


end
